theory Spec2Isabelle
  imports Main "HOL-Library.AList"
begin

section \<open>The file states of salt/states/file.py\<close>

text \<open>
  The module reconciles files, directories and symlinks against a desired state. Its
  functions talk to three things that are not defined in the module: the Python
  standard library (\<open>os\<close>, \<open>shutil\<close>, \<open>hashlib\<close>, \<open>difflib\<close>), the
  provider functions injected as \<open>__salt__\<close>, and the configuration injected as
  \<open>__opts__\<close>. They are gathered in a record \<open>host\<close> of functions over an abstract
  machine state \<open>'s\<close>; every theorem below holds for every host.
\<close>

subsection \<open>Values\<close>

type_synonym path = string

text \<open>Exceptions that the modelled statements can raise.\<close>

datatype exn = OSError | IOError | AttributeError | TypeError | UnboundLocalError

text \<open>
  The calls that change the machine and that the state functions make themselves:
  \<open>shutil.copy(src, dst)\<close>, \<open>os.remove\<close>, \<open>shutil.rmtree\<close>, \<open>os.makedirs\<close>,
  \<open>os.symlink(target, name)\<close>, \<open>__salt__['file.chown'](name, user, group)\<close> and
  \<open>__salt__['file.set_mode'](name, mode)\<close>. Each one is logged when it is made.
\<close>

datatype call =
    CopyCall path path
  | RemoveCall path
  | RmtreeCall path
  | MakedirsCall path
  | SymlinkCall path path
  | ChownCall path "string option" "string option"
  | SetModeCall path string

text \<open>The dictionary \<open>ret\<close>; \<open>changes\<close> is a dictionary of its own, kept as an
  association list in insertion order (\<open>AList.update\<close> replaces an existing key).\<close>

record ret =
  ret_name :: string
  ret_changes :: "(string \<times> string) list"
  ret_result :: bool
  ret_comment :: string

text \<open>How a call of a state function ends: it returns \<open>ret\<close>, it falls off the end of
  the function body (Python returns \<open>None\<close>), or an exception leaves it.\<close>

datatype outcome = Returns ret | ReturnsNone | Raises exn

text \<open>The machine state together with the log of mutating calls made so far.\<close>

record 's world =
  fs :: 's
  trace :: "call list"

text \<open>The dictionary returned by a template function: \<open>{'result': bool, 'data': str}\<close>.\<close>

record render_data =
  data_result :: bool
  data_data :: string

text \<open>Optional arguments (\<open>user=None\<close>, \<open>template=None\<close>, ...) are \<open>string option\<close>;
  the argument \<open>group\<close> is written \<open>grp\<close>, since \<open>group\<close> is a constant of HOL.
  Python's truth test of such a value: \<open>None\<close> and the empty string are false.\<close>

fun truthy :: "string option \<Rightarrow> bool" where
  "truthy None = False"
| "truthy (Some s) = (s \<noteq> [])"

text \<open>The argument \<open>mode\<close> is given as a string or as a number.\<close>

datatype pymode = MNone | MStr string | MInt int

subsection \<open>The host\<close>

text \<open>
  A mutating operation returns the exception it raised, if any, and the state it left.
  A probe reads the state. \<open>open(p).read()\<close> and \<open>os.readlink\<close> give \<open>None\<close>
  where Python raises. \<open>cp.cache_file\<close>, \<open>file.cache_dir\<close> and the template engines
  write files of their own (the cache, a temporary file), so they return a new state;
  they are not among the logged calls.
\<close>

record 's host =
  os_path_isdir :: "'s \<Rightarrow> path \<Rightarrow> bool"
  os_path_isfile :: "'s \<Rightarrow> path \<Rightarrow> bool"
  os_path_islink :: "'s \<Rightarrow> path \<Rightarrow> bool"
  os_path_exists :: "'s \<Rightarrow> path \<Rightarrow> bool"
  os_path_dirname :: "path \<Rightarrow> path"
  os_path_join :: "path \<Rightarrow> path \<Rightarrow> path"
  os_path_relpath :: "path \<Rightarrow> path \<Rightarrow> path"
  os_readlink :: "'s \<Rightarrow> path \<Rightarrow> path option"
  read_file :: "'s \<Rightarrow> path \<Rightarrow> string option"
  os_remove :: "path \<Rightarrow> 's \<Rightarrow> exn option \<times> 's"
  os_makedirs :: "path \<Rightarrow> 's \<Rightarrow> exn option \<times> 's"
  os_symlink :: "path \<Rightarrow> path \<Rightarrow> 's \<Rightarrow> exn option \<times> 's"
  shutil_copy :: "path \<Rightarrow> path \<Rightarrow> 's \<Rightarrow> exn option \<times> 's"
  shutil_rmtree :: "path \<Rightarrow> 's \<Rightarrow> exn option \<times> 's"
  hashlib :: "string \<Rightarrow> (string \<Rightarrow> string) option"
  hashlib_md5 :: "string \<Rightarrow> string"
  unified_diff :: "string list \<Rightarrow> string list \<Rightarrow> string list"
  cp_hash_file :: "'s \<Rightarrow> string \<Rightarrow> string \<Rightarrow> (string \<times> string) option"
  cp_cache_file :: "string \<Rightarrow> string \<Rightarrow> 's \<Rightarrow> string option \<times> 's"
  file_cache_dir :: "string \<Rightarrow> string \<Rightarrow> 's \<Rightarrow> path list \<times> 's"
  file_get_user :: "'s \<Rightarrow> path \<Rightarrow> string"
  file_get_group :: "'s \<Rightarrow> path \<Rightarrow> string"
  file_get_mode :: "'s \<Rightarrow> path \<Rightarrow> string"
  file_chown :: "path \<Rightarrow> string option \<Rightarrow> string option \<Rightarrow> 's \<Rightarrow> exn option \<times> 's"
  file_set_mode :: "path \<Rightarrow> string \<Rightarrow> 's \<Rightarrow> exn option \<times> 's"
  import_mako :: bool
  import_jinja2 :: bool
  mako_render :: "path \<Rightarrow> 's \<Rightarrow> (string + path) \<times> 's"
  jinja_render :: "path \<Rightarrow> 's \<Rightarrow> (string + path) \<times> 's"
  ambient_globals :: "string list"
  opts_test :: bool
  opts_cachedir :: string

text \<open>Making a logged call: the call is appended to the log and the operation runs.\<close>

definition do_call :: "call \<Rightarrow> ('s \<Rightarrow> exn option \<times> 's) \<Rightarrow> 's world \<Rightarrow> exn option \<times> 's world" where
  "do_call c f w = (case f (fs w) of (e, s') \<Rightarrow> (e, \<lparr>fs = s', trace = trace w @ [c]\<rparr>))"

subsection \<open>Helpers of the module\<close>

text \<open>A name of the module that starts with an underscore gets the prefix \<open>u_\<close> here.\<close>

text \<open>\<open>_makedirs(path)\<close>, lines 12-17.\<close>

definition u_makedirs :: "'s host \<Rightarrow> path \<Rightarrow> 's world \<Rightarrow> exn option \<times> 's world" where
  "u_makedirs H p w =
     (if \<not> os_path_isdir H (fs w) (os_path_dirname H p)
      then do_call (MakedirsCall (os_path_dirname H p)) (os_makedirs H (os_path_dirname H p)) w
      else (None, w))"

text \<open>\<open>_is_bin(path)\<close>, lines 19-26: a NUL among the first 2048 bytes. \<open>None\<close> when the
  file cannot be opened (the call raises).\<close>

definition is_bin_bytes :: "string \<Rightarrow> bool" where
  "is_bin_bytes bs = (count_list (take 2048 bs) (CHR 0x00) \<noteq> 0)"

definition u_is_bin :: "'s host \<Rightarrow> 's \<Rightarrow> path \<Rightarrow> bool option" where
  "u_is_bin H s p = map_option is_bin_bytes (read_file H s p)"

subsection \<open>symlink\<close>

text \<open>Lines 96-120 of \<open>symlink\<close>: what occupies \<open>name\<close>. \<open>Inl\<close> is an early return (or an
  exception), \<open>Inr\<close> goes on to line 121.\<close>

definition symlink_occupied ::
  "'s host \<Rightarrow> path \<Rightarrow> path \<Rightarrow> bool \<Rightarrow> ret \<Rightarrow> 's world \<Rightarrow> (outcome + ret) \<times> 's world" where
  "symlink_occupied H name target force r w =
     (if os_path_islink H (fs w) name then
        (case os_readlink H (fs w) name of
           None \<Rightarrow> (Inl (Raises OSError), w)
         | Some t \<Rightarrow>
             if \<not> t = target then
               (case do_call (RemoveCall name) (os_remove H name) w of
                  (Some e, w1) \<Rightarrow> (Inl (Raises e), w1)
                | (None, w1) \<Rightarrow> (Inr r, w1))
             else (Inl (Returns (r\<lparr>ret_comment := ''The symlink '' @ name @ '' is present''\<rparr>)), w))
      else if os_path_isfile H (fs w) name then
        (if force then
           (case do_call (RemoveCall name) (os_remove H name) w of
              (Some e, w1) \<Rightarrow> (Inl (Raises e), w1)
            | (None, w1) \<Rightarrow> (Inr r, w1))
         else (Inl (Returns (r\<lparr>ret_result := False,
                  ret_comment := ''File exists where the symlink '' @ name @ '' should be''\<rparr>)), w))
      else if os_path_isdir H (fs w) name then
        (if force then
           (case do_call (RmtreeCall name) (shutil_rmtree H name) w of
              (Some e, w1) \<Rightarrow> (Inl (Raises e), w1)
            | (None, w1) \<Rightarrow> (Inr r, w1))
         else (Inl (Returns (r\<lparr>ret_result := False,
                  ret_comment := ''Direcotry exists where the symlink '' @ name @ '' should be''\<rparr>)), w))
      else (Inr r, w))"

text \<open>\<open>symlink(name, target, force=False, makedirs=False)\<close>, lines 82-126.\<close>

definition symlink ::
  "'s host \<Rightarrow> path \<Rightarrow> path \<Rightarrow> bool \<Rightarrow> bool \<Rightarrow> 's world \<Rightarrow> outcome \<times> 's world" where
  "symlink H name target force makedirs w =
     (let r = \<lparr>ret_name = name, ret_changes = [], ret_result = True, ret_comment = []\<rparr> in
      if \<not> os_path_isdir H (fs w) (os_path_dirname H name) then
        (case (if makedirs then u_makedirs H name w else (None, w)) of
           (Some e, w1) \<Rightarrow> (Raises e, w1)
         | (None, w1) \<Rightarrow>
             (Returns (r\<lparr>ret_result := False,
                ret_comment := ''Directory '' @ os_path_dirname H name @ '' for symlink is not present''\<rparr>), w1))
      else
        (case symlink_occupied H name target force r w of
           (Inl out, w1) \<Rightarrow> (out, w1)
         | (Inr r1, w1) \<Rightarrow>
             if \<not> os_path_exists H (fs w1) name then
               (case do_call (SymlinkCall target name) (os_symlink H target name) w1 of
                  (Some e, w2) \<Rightarrow> (Raises e, w2)
                | (None, w2) \<Rightarrow>
                    (Returns (r1\<lparr>ret_comment := ''Created new symlink '' @ name,
                       ret_changes := AList.update ''new'' name (ret_changes r1)\<rparr>), w2))
             else (ReturnsNone, w1)))"

subsection \<open>absent\<close>

text \<open>\<open>absent(name)\<close>, lines 128-157. The bare \<open>except:\<close> turns every exception of the
  removal into a failed result.\<close>

definition absent :: "'s host \<Rightarrow> path \<Rightarrow> 's world \<Rightarrow> outcome \<times> 's world" where
  "absent H name w =
     (let r = \<lparr>ret_name = name, ret_changes = [], ret_result = True, ret_comment = []\<rparr> in
      if os_path_isfile H (fs w) name \<or> os_path_islink H (fs w) name then
        (case do_call (RemoveCall name) (os_remove H name) w of
           (None, w1) \<Rightarrow>
             (Returns (r\<lparr>ret_comment := ''Removed file '' @ name,
                ret_changes := AList.update ''removed'' name (ret_changes r)\<rparr>), w1)
         | (Some e, w1) \<Rightarrow>
             (Returns (r\<lparr>ret_result := False, ret_comment := ''Failed to remove file '' @ name\<rparr>), w1))
      else if os_path_isdir H (fs w) name then
        (case do_call (RmtreeCall name) (shutil_rmtree H name) w of
           (None, w1) \<Rightarrow>
             (Returns (r\<lparr>ret_comment := ''Removed directory '' @ name,
                ret_changes := AList.update ''removed'' name (ret_changes r)\<rparr>), w1)
         | (Some e, w1) \<Rightarrow>
             (Returns (r\<lparr>ret_result := False, ret_comment := ''Failed to remove directory '' @ name\<rparr>), w1))
      else (Returns (r\<lparr>ret_comment := ''File '' @ name @ '' is not present''\<rparr>), w))"

subsection \<open>Template functions and their dispatch\<close>

text \<open>\<open>_mako(sfn)\<close>, lines 28-53, and \<open>_jinja(sfn)\<close>, lines 55-80. The body of the second
  \<open>try\<close> is the engine's work (\<open>mako_render\<close>, \<open>jinja_render\<close>): it gives the path of the
  rendered temporary file, or the traceback text that the bare \<open>except:\<close> returns.\<close>

definition u_mako :: "'s host \<Rightarrow> path \<Rightarrow> 's \<Rightarrow> render_data \<times> 's" where
  "u_mako H sfn s =
     (if \<not> import_mako H then (\<lparr>data_result = False, data_data = ''Failed to import jinja''\<rparr>, s)
      else (case mako_render H sfn s of
              (Inr tgt, s') \<Rightarrow> (\<lparr>data_result = True, data_data = tgt\<rparr>, s')
            | (Inl trb, s') \<Rightarrow> (\<lparr>data_result = False, data_data = trb\<rparr>, s')))"

definition u_jinja :: "'s host \<Rightarrow> path \<Rightarrow> 's \<Rightarrow> render_data \<times> 's" where
  "u_jinja H sfn s =
     (if \<not> import_jinja2 H then (\<lparr>data_result = False, data_data = ''Failed to import jinja''\<rparr>, s)
      else (case jinja_render H sfn s of
              (Inr tgt, s') \<Rightarrow> (\<lparr>data_result = True, data_data = tgt\<rparr>, s')
            | (Inl trb, s') \<Rightarrow> (\<lparr>data_result = False, data_data = trb\<rparr>, s')))"

text \<open>
  \<open>globals()\<close> of the module, at the keys \<open>'_' + template\<close> can reach: the four functions
  the module defines under such a name, and the names the interpreter and the loader put
  there (\<open>__salt__\<close>, \<open>__opts__\<close>, \<open>__grains__\<close>, \<open>__name__\<close>, \<open>__doc__\<close>, ...), listed by
  \<open>ambient_globals\<close>; these are dictionaries, strings and modules, and calling one raises
  \<open>TypeError\<close>.
\<close>

datatype pyglobal = G_makedirs | G_is_bin | G_mako | G_jinja | G_ambient

definition globals_get :: "'s host \<Rightarrow> string \<Rightarrow> pyglobal option" where
  "globals_get H k =
     (if k = ''_makedirs'' then Some G_makedirs
      else if k = ''_is_bin'' then Some G_is_bin
      else if k = ''_mako'' then Some G_mako
      else if k = ''_jinja'' then Some G_jinja
      else if k \<in> set (ambient_globals H) then Some G_ambient
      else None)"

text \<open>What \<open>globals()[t_key](sfn)\<close> evaluates to.\<close>

datatype pyval = VDict render_data | VNone | VBool bool

definition call_global :: "'s host \<Rightarrow> pyglobal \<Rightarrow> path \<Rightarrow> 's world \<Rightarrow> (exn + pyval) \<times> 's world" where
  "call_global H g sfn w =
     (case g of
        G_mako \<Rightarrow> (case u_mako H sfn (fs w) of (d, s') \<Rightarrow> (Inr (VDict d), w\<lparr>fs := s'\<rparr>))
      | G_jinja \<Rightarrow> (case u_jinja H sfn (fs w) of (d, s') \<Rightarrow> (Inr (VDict d), w\<lparr>fs := s'\<rparr>))
      | G_makedirs \<Rightarrow>
          (case u_makedirs H sfn w of (Some e, w1) \<Rightarrow> (Inl e, w1) | (None, w1) \<Rightarrow> (Inr VNone, w1))
      | G_is_bin \<Rightarrow>
          (case u_is_bin H (fs w) sfn of None \<Rightarrow> (Inl IOError, w) | Some b \<Rightarrow> (Inr (VBool b), w))
      | G_ambient \<Rightarrow> (Inl TypeError, w))"

text \<open>Lines 194-203 (the file exists). \<open>data\<close> is assigned only when the key is found; then
  \<open>data['result']\<close> is read. \<open>Inr\<close> carries the new \<open>sfn\<close>.\<close>

definition template_existing ::
  "'s host \<Rightarrow> string option \<Rightarrow> path \<Rightarrow> ret \<Rightarrow> 's world \<Rightarrow> (outcome + path) \<times> 's world" where
  "template_existing H template sfn r w =
     (case template of
        None \<Rightarrow> (Inr sfn, w)
      | Some t \<Rightarrow>
          if t = [] then (Inr sfn, w)
          else (case globals_get H (CHR ''_'' # t) of
                  None \<Rightarrow> (Inl (Raises UnboundLocalError), w)
                | Some g \<Rightarrow>
                    (case call_global H g sfn w of
                       (Inl e, w1) \<Rightarrow> (Inl (Raises e), w1)
                     | (Inr (VDict d), w1) \<Rightarrow>
                         if data_result d then (Inr (data_data d), w1)
                         else (Inl (Returns (r\<lparr>ret_result := False, ret_comment := data_data d\<rparr>)), w1)
                     | (Inr VNone, w1) \<Rightarrow> (Inl (Raises TypeError), w1)
                     | (Inr (VBool b), w1) \<Rightarrow> (Inl (Raises TypeError), w1))))"

text \<open>Lines 271-280 (the file is absent). \<open>data = {}\<close> first, then \<open>data.get('result')\<close>.\<close>

definition template_new ::
  "'s host \<Rightarrow> string option \<Rightarrow> path \<Rightarrow> ret \<Rightarrow> 's world \<Rightarrow> (outcome + path) \<times> 's world" where
  "template_new H template sfn r w =
     (case template of
        None \<Rightarrow> (Inr sfn, w)
      | Some t \<Rightarrow>
          if t = [] then (Inr sfn, w)
          else (case globals_get H (CHR ''_'' # t) of
                  None \<Rightarrow> (Inl (Returns (r\<lparr>ret_result := False\<rparr>)), w)
                | Some g \<Rightarrow>
                    (case call_global H g sfn w of
                       (Inl e, w1) \<Rightarrow> (Inl (Raises e), w1)
                     | (Inr (VDict d), w1) \<Rightarrow>
                         if data_result d then (Inr (data_data d), w1)
                         else (Inl (Returns (r\<lparr>ret_result := False\<rparr>)), w1)
                     | (Inr VNone, w1) \<Rightarrow> (Inl (Raises AttributeError), w1)
                     | (Inr (VBool b), w1) \<Rightarrow> (Inl (Raises AttributeError), w1))))"

subsection \<open>Comparing contents\<close>

text \<open>\<open>file.readlines()\<close>: the lines, each with its newline.\<close>

fun readlines :: "string \<Rightarrow> string list" where
  "readlines [] = []"
| "readlines (c # cs) =
     (if c = CHR 0x0A then [c] # readlines cs
      else (case readlines cs of [] \<Rightarrow> [[c]] | l # ls \<Rightarrow> (c # l) # ls))"

text \<open>\<open>'\n'.join(xs)\<close>.\<close>

fun join_nl :: "string list \<Rightarrow> string" where
  "join_nl [] = []"
| "join_nl [x] = x"
| "join_nl (x # y # ys) = x @ [CHR 0x0A] @ join_nl (y # ys)"

text \<open>Lines 205-210: the value stored under \<open>'diff'\<close>, or the \<open>IOError\<close> of a file that
  cannot be opened. \<open>or\<close> does not evaluate \<open>_is_bin(name)\<close> when \<open>_is_bin(sfn)\<close> holds.\<close>

definition content_diff :: "'s host \<Rightarrow> 's \<Rightarrow> path \<Rightarrow> path \<Rightarrow> exn + string" where
  "content_diff H s sfn name =
     (case u_is_bin H s sfn of
        None \<Rightarrow> Inl IOError
      | Some sb \<Rightarrow>
          if sb then Inr ''Replace binary file''
          else (case u_is_bin H s name of
                  None \<Rightarrow> Inl IOError
                | Some nb \<Rightarrow>
                    if nb then Inr ''Replace binary file''
                    else (case read_file H s sfn of
                            None \<Rightarrow> Inl IOError
                          | Some sbytes \<Rightarrow>
                              (case read_file H s name of
                                 None \<Rightarrow> Inl IOError
                               | Some nbytes \<Rightarrow>
                                   Inr (join_nl (unified_diff H (readlines sbytes) (readlines nbytes)))))))"

subsection \<open>Permissions\<close>

text \<open>\<open>str(mode)\<close> of a number is its decimal numeral.\<close>

fun str_nat :: "nat \<Rightarrow> string" where
  "str_nat n = (if n < 10 then [char_of (48 + n)] else str_nat (n div 10) @ [char_of (48 + n mod 10)])"

declare str_nat.simps [simp del]

definition str_int :: "int \<Rightarrow> string" where
  "str_int i = (if i < 0 then CHR ''-'' # str_nat (nat (- i)) else str_nat (nat i))"

text \<open>\<open>if mode: mode = str(mode)\<close>, lines 170-171 and 347-348. The result is \<open>None\<close> when
  \<open>mode\<close> is false (\<open>None\<close>, \<open>''\<close>, \<open>0\<close>), so that the later tests \<open>if mode:\<close> are
  \<open>truthy\<close>.\<close>

fun norm_mode :: "pymode \<Rightarrow> string option" where
  "norm_mode MNone = None"
| "norm_mode (MStr s) = (if s = [] then None else Some s)"
| "norm_mode (MInt i) = (if i = 0 then None else Some (str_int i))"

text \<open>
  Lines 215-241, the same text as lines 289-316 and 375-401: read the permissions, note
  the pending owner and group (\<open>perms['cuser']\<close>, \<open>perms['cgroup']\<close>), call \<open>file.chown\<close>,
  then set and re-read the mode. Returns \<open>ret\<close> and the two pending flags.
\<close>

definition perms_apply ::
  "'s host \<Rightarrow> path \<Rightarrow> string option \<Rightarrow> string option \<Rightarrow> string option \<Rightarrow> ret \<Rightarrow> 's world
     \<Rightarrow> (exn + ret \<times> bool \<times> bool) \<times> 's world" where
  "perms_apply H name user grp mode r w =
     (let luser = file_get_user H (fs w) name;
          lgroup = file_get_group H (fs w) name;
          lmode = file_get_mode H (fs w) name;
          cuser = (truthy user \<and> user \<noteq> Some luser);
          cgroup = (truthy grp \<and> grp \<noteq> Some lgroup)
      in case (if (cuser \<or> cgroup) \<and> \<not> opts_test H
               then do_call (ChownCall name user grp) (file_chown H name user grp) w
               else (None, w)) of
           (Some e, w1) \<Rightarrow> (Inl e, w1)
         | (None, w1) \<Rightarrow>
             (case mode of
                None \<Rightarrow> (Inr (r, cuser, cgroup), w1)
              | Some m \<Rightarrow>
                  if m \<noteq> [] \<and> m \<noteq> lmode then
                    (case (if \<not> opts_test H
                           then do_call (SetModeCall name m) (file_set_mode H name m) w1
                           else (None, w1)) of
                       (Some e, w2) \<Rightarrow> (Inl e, w2)
                     | (None, w2) \<Rightarrow>
                         if m \<noteq> file_get_mode H (fs w2) name
                         then (Inr (r\<lparr>ret_result := False,
                                 ret_comment := ret_comment r @ ''Mode not changed ''\<rparr>, cuser, cgroup), w2)
                         else (Inr (r\<lparr>ret_changes := AList.update ''mode'' m (ret_changes r)\<rparr>,
                                 cuser, cgroup), w2))
                  else (Inr (r, cuser, cgroup), w1)))"

text \<open>Lines 242-253, the same text as lines 402-413 (\<open>directory\<close>): the owner and the group
  are read again. The user branch assigns the comment, the group branch appends to it.\<close>

definition verify_owner ::
  "'s host \<Rightarrow> 's \<Rightarrow> path \<Rightarrow> string option \<Rightarrow> string option \<Rightarrow> bool \<Rightarrow> bool \<Rightarrow> ret \<Rightarrow> ret" where
  "verify_owner H s name user grp cuser cgroup r =
     (let r1 = (case user of
                  None \<Rightarrow> r
                | Some u \<Rightarrow>
                    if u = [] then r
                    else if u \<noteq> file_get_user H s name
                    then r\<lparr>ret_result := False, ret_comment := ''Failed to change user to '' @ u @ '' ''\<rparr>
                    else if cuser then r\<lparr>ret_changes := AList.update ''user'' u (ret_changes r)\<rparr>
                    else r)
      in (case grp of
            None \<Rightarrow> r1
          | Some g \<Rightarrow>
              if g = [] then r1
              else if g \<noteq> file_get_group H s name
              then r1\<lparr>ret_result := False,
                     ret_comment := ret_comment r1 @ ''Failed to change group to '' @ g @ '' ''\<rparr>
              else if cgroup then r1\<lparr>ret_changes := AList.update ''group'' g (ret_changes r1)\<rparr>
              else r1))"

text \<open>Lines 317-328 (the file was absent): both branches append to the comment.\<close>

definition verify_owner_new ::
  "'s host \<Rightarrow> 's \<Rightarrow> path \<Rightarrow> string option \<Rightarrow> string option \<Rightarrow> bool \<Rightarrow> bool \<Rightarrow> ret \<Rightarrow> ret" where
  "verify_owner_new H s name user grp cuser cgroup r =
     (let r1 = (case user of
                  None \<Rightarrow> r
                | Some u \<Rightarrow>
                    if u = [] then r
                    else if u \<noteq> file_get_user H s name
                    then r\<lparr>ret_result := False, ret_comment := ret_comment r @ ''User not changed ''\<rparr>
                    else if cuser then r\<lparr>ret_changes := AList.update ''user'' u (ret_changes r)\<rparr>
                    else r)
      in (case grp of
            None \<Rightarrow> r1
          | Some g \<Rightarrow>
              if g = [] then r1
              else if g \<noteq> file_get_group H s name
              then r1\<lparr>ret_result := False, ret_comment := ret_comment r1 @ ''Group not changed ''\<rparr>
              else if cgroup then r1\<lparr>ret_changes := AList.update ''group'' g (ret_changes r1)\<rparr>
              else r1))"

subsection \<open>managed\<close>

text \<open>Lines 179-213: the file exists; compare the sums and, where they differ, fetch,
  render, diff and copy. \<open>Inl\<close> is an early return or an exception, \<open>Inr\<close> goes on to
  the permissions. \<open>cp.hash_file\<close> gives \<open>(hash_type, hsum)\<close>.\<close>

definition managed_content ::
  "'s host \<Rightarrow> path \<Rightarrow> string \<Rightarrow> string option \<Rightarrow> string \<Rightarrow> ret \<Rightarrow> 's world
     \<Rightarrow> (outcome + ret) \<times> 's world" where
  "managed_content H name source template env r w =
     (case cp_hash_file H (fs w) source env of
        None \<Rightarrow>
          (Inl (Returns (r\<lparr>ret_result := False,
             ret_comment := ''Source file '' @ source @ '' not found''\<rparr>)), w)
      | Some (hash_type, hsum) \<Rightarrow>
          (case hashlib H hash_type of
             None \<Rightarrow> (Inl (Raises AttributeError), w)
           | Some h \<Rightarrow>
               (case read_file H (fs w) name of
                  None \<Rightarrow> (Inl (Raises IOError), w)
                | Some bytes \<Rightarrow>
                    if hsum \<noteq> h bytes then
                      (case cp_cache_file H source env (fs w) of
                         (sfn0, s1) \<Rightarrow>
                           if \<not> truthy sfn0 then
                             (Inl (Returns (r\<lparr>ret_result := False,
                                ret_comment := ''Source file '' @ source @ '' not found''\<rparr>)),
                              w\<lparr>fs := s1\<rparr>)
                           else
                             (case template_existing H template (case sfn0 of Some p \<Rightarrow> p | None \<Rightarrow> [])
                                     r (w\<lparr>fs := s1\<rparr>) of
                                (Inl out, w2) \<Rightarrow> (Inl out, w2)
                              | (Inr sfn, w2) \<Rightarrow>
                                  (case content_diff H (fs w2) sfn name of
                                     Inl e \<Rightarrow> (Inl (Raises e), w2)
                                   | Inr d \<Rightarrow>
                                       (let r1 = r\<lparr>ret_changes := AList.update ''diff'' d (ret_changes r)\<rparr>
                                        in if \<not> opts_test H then
                                             (case do_call (CopyCall sfn name) (shutil_copy H sfn name) w2 of
                                                (Some e, w3) \<Rightarrow> (Inl (Raises e), w3)
                                              | (None, w3) \<Rightarrow> (Inr r1, w3))
                                           else (Inr r1, w2)))))
                    else (Inr r, w))))"

text \<open>Lines 265-287: the file is absent; fetch, render, record \<open>'diff': 'New file'\<close> and
  copy.\<close>

definition managed_create ::
  "'s host \<Rightarrow> path \<Rightarrow> string \<Rightarrow> string option \<Rightarrow> bool \<Rightarrow> string \<Rightarrow> ret \<Rightarrow> 's world
     \<Rightarrow> (outcome + ret) \<times> 's world" where
  "managed_create H name source template makedirs env r w =
     (case cp_cache_file H source env (fs w) of
        (sfn0, s1) \<Rightarrow>
          if \<not> truthy sfn0 then
            (Inl (Returns (r\<lparr>ret_result := False,
               ret_comment := ''Source file '' @ source @ '' not found''\<rparr>)), w\<lparr>fs := s1\<rparr>)
          else
            (case template_new H template (case sfn0 of Some p \<Rightarrow> p | None \<Rightarrow> []) r (w\<lparr>fs := s1\<rparr>) of
               (Inl out, w2) \<Rightarrow> (Inl out, w2)
             | (Inr sfn, w2) \<Rightarrow>
                 (let r1 = r\<lparr>ret_changes := AList.update ''diff'' ''New file'' (ret_changes r)\<rparr>
                  in if \<not> opts_test H then
                       (case (if makedirs then u_makedirs H name w2 else (None, w2)) of
                          (Some e, w3) \<Rightarrow> (Inl (Raises e), w3)
                        | (None, w3) \<Rightarrow>
                            (case do_call (CopyCall sfn name) (shutil_copy H sfn name) w3 of
                               (Some e, w4) \<Rightarrow> (Inl (Raises e), w4)
                             | (None, w4) \<Rightarrow> (Inr r1, w4)))
                     else (Inr r1, w2))))"

text \<open>Lines 255-261 and 330-336: the comment of \<open>managed\<close>.\<close>

definition managed_comment :: "'s host \<Rightarrow> path \<Rightarrow> ret \<Rightarrow> ret" where
  "managed_comment H name r =
     (let r1 = (if ret_comment r = [] then r\<lparr>ret_comment := ''File '' @ name @ '' updated''\<rparr> else r)
      in if opts_test H then r1\<lparr>ret_comment := ''File '' @ name @ '' not updated''\<rparr>
         else if ret_changes r1 = [] \<and> ret_result r1
         then r1\<lparr>ret_comment := ''File '' @ name @ '' is in the correct state''\<rparr>
         else r1)"

text \<open>\<open>managed(name, source, user, group, mode, template, makedirs, __env__)\<close>, lines
  159-337.\<close>

definition managed ::
  "'s host \<Rightarrow> path \<Rightarrow> string \<Rightarrow> string option \<Rightarrow> string option \<Rightarrow> pymode \<Rightarrow> string option
     \<Rightarrow> bool \<Rightarrow> string \<Rightarrow> 's world \<Rightarrow> outcome \<times> 's world" where
  "managed H name source user grp mode template makedirs env w =
     (let mode = norm_mode mode;
          r = \<lparr>ret_name = name, ret_changes = [], ret_result = True, ret_comment = []\<rparr>
      in if os_path_isfile H (fs w) name then
           (case managed_content H name source template env r w of
              (Inl out, w1) \<Rightarrow> (out, w1)
            | (Inr r1, w1) \<Rightarrow>
                (case perms_apply H name user grp mode r1 w1 of
                   (Inl e, w2) \<Rightarrow> (Raises e, w2)
                 | (Inr (r2, cuser, cgroup), w2) \<Rightarrow>
                     (Returns (managed_comment H name
                        (verify_owner H (fs w2) name user grp cuser cgroup r2)), w2)))
         else
           (case managed_create H name source template makedirs env r w of
              (Inl out, w1) \<Rightarrow> (out, w1)
            | (Inr r1, w1) \<Rightarrow>
                (case perms_apply H name user grp mode r1 w1 of
                   (Inl e, w2) \<Rightarrow> (Raises e, w2)
                 | (Inr (r2, cuser, cgroup), w2) \<Rightarrow>
                     (Returns (managed_comment H name
                        (verify_owner_new H (fs w2) name user grp cuser cgroup r2)), w2))))"

subsection \<open>directory\<close>

text \<open>Lines 353-372: make sure the directory is there.\<close>

definition directory_ensure ::
  "'s host \<Rightarrow> path \<Rightarrow> bool \<Rightarrow> ret \<Rightarrow> 's world \<Rightarrow> (outcome + unit) \<times> 's world" where
  "directory_ensure H name makedirs r w =
     (if os_path_isfile H (fs w) name then
        (Inl (Returns (r\<lparr>ret_result := False,
           ret_comment := ''Specifed location '' @ name @ '' exists and is a file''\<rparr>)), w)
      else
        (case (if \<not> os_path_isdir H (fs w) name \<and> \<not> os_path_isdir H (fs w) (os_path_dirname H name)
               then (if makedirs
                     then (case u_makedirs H name w of
                             (Some e, w1) \<Rightarrow> (Inl (Raises e), w1)
                           | (None, w1) \<Rightarrow> (Inr (), w1))
                     else (Inl (Returns (r\<lparr>ret_result := False,
                             ret_comment := ''No directory to create '' @ name @ '' in''\<rparr>)), w))
               else (Inr (), w)) of
           (Inl out, w1) \<Rightarrow> (Inl out, w1)
         | (Inr u, w1) \<Rightarrow>
             (case (if \<not> os_path_isdir H (fs w1) name
                    then (case u_makedirs H name w1 of
                            (Some e, w2) \<Rightarrow> (Some e, w2)
                          | (None, w2) \<Rightarrow> do_call (MakedirsCall name) (os_makedirs H name) w2)
                    else (None, w1)) of
                (Some e, w3) \<Rightarrow> (Inl (Raises e), w3)
              | (None, w3) \<Rightarrow>
                  if \<not> os_path_isdir H (fs w3) name
                  then (Inl (Returns (r\<lparr>ret_result := False,
                          ret_comment := ''Failed to create directory '' @ name\<rparr>)), w3)
                  else (Inr (), w3))))"

text \<open>Lines 415-421: the comment of \<open>directory\<close>.\<close>

definition directory_comment :: "'s host \<Rightarrow> path \<Rightarrow> ret \<Rightarrow> ret" where
  "directory_comment H name r =
     (let r1 = (if ret_comment r = [] then r\<lparr>ret_comment := ''Directory '' @ name @ '' updated''\<rparr> else r)
      in if opts_test H then r1\<lparr>ret_comment := ''Directory '' @ name @ '' not updated''\<rparr>
         else if ret_changes r1 = [] \<and> ret_result r1
         then r1\<lparr>ret_comment := ''Directory '' @ name @ '' is in the correct state''\<rparr>
         else r1)"

text \<open>\<open>directory(name, user, group, mode, makedirs)\<close>, lines 339-422.\<close>

definition directory ::
  "'s host \<Rightarrow> path \<Rightarrow> string option \<Rightarrow> string option \<Rightarrow> pymode \<Rightarrow> bool \<Rightarrow> 's world
     \<Rightarrow> outcome \<times> 's world" where
  "directory H name user grp mode makedirs w =
     (let mode = norm_mode mode;
          r = \<lparr>ret_name = name, ret_changes = [], ret_result = True, ret_comment = []\<rparr>
      in case directory_ensure H name makedirs r w of
           (Inl out, w1) \<Rightarrow> (out, w1)
         | (Inr u, w1) \<Rightarrow>
             (case perms_apply H name user grp mode r w1 of
                (Inl e, w2) \<Rightarrow> (Raises e, w2)
              | (Inr (r2, cuser, cgroup), w2) \<Rightarrow>
                  (Returns (directory_comment H name
                     (verify_owner H (fs w2) name user grp cuser cgroup r2)), w2)))"

subsection \<open>recurse\<close>

text \<open>Lines 444-467: the body of the loop, for one cached file \<open>fn_\<close>. \<open>Inl\<close> is the
  exception that ends the call.\<close>

definition recurse_file ::
  "'s host \<Rightarrow> path \<Rightarrow> string \<Rightarrow> path \<Rightarrow> ret \<Rightarrow> 's world \<Rightarrow> (exn + ret) \<times> 's world" where
  "recurse_file H name env fn r w =
     (let dest = os_path_join H name
                   (os_path_relpath H fn
                      (os_path_join H (os_path_join H (opts_cachedir H) ''files'') env))
      in case (if \<not> os_path_isdir H (fs w) (os_path_dirname H dest)
               then u_makedirs H dest w else (None, w)) of
           (Some e, w1) \<Rightarrow> (Inl e, w1)
         | (None, w1) \<Rightarrow>
             if os_path_isfile H (fs w1) dest then
               (case read_file H (fs w1) fn of
                  None \<Rightarrow> (Inl IOError, w1)
                | Some sbytes \<Rightarrow>
                    (case read_file H (fs w1) dest of
                       None \<Rightarrow> (Inl IOError, w1)
                     | Some dbytes \<Rightarrow>
                         if hashlib_md5 H sbytes \<noteq> hashlib_md5 H dbytes then
                           (case do_call (CopyCall fn dest) (shutil_copy H fn dest) w1 of
                              (Some e, w2) \<Rightarrow> (Inl e, w2)
                            | (None, w2) \<Rightarrow>
                                (Inr (r\<lparr>ret_changes := AList.update dest ''updated'' (ret_changes r)\<rparr>), w2))
                         else (Inr r, w1)))
             else
               (case do_call (CopyCall fn dest) (shutil_copy H fn dest) w1 of
                  (Some e, w2) \<Rightarrow> (Inl e, w2)
                | (None, w2) \<Rightarrow>
                    (Inr (r\<lparr>ret_changes := AList.update dest ''new'' (ret_changes r)\<rparr>), w2)))"

text \<open>The \<open>for\<close> loop of line 443, over the list \<open>file.cache_dir\<close> returned.\<close>

fun recurse_loop ::
  "'s host \<Rightarrow> path \<Rightarrow> string \<Rightarrow> path list \<Rightarrow> ret \<Rightarrow> 's world \<Rightarrow> outcome \<times> 's world" where
  "recurse_loop H name env [] r w = (Returns r, w)"
| "recurse_loop H name env (fn # fns) r w =
     (case recurse_file H name env fn r w of
        (Inl e, w1) \<Rightarrow> (Raises e, w1)
      | (Inr r1, w1) \<Rightarrow> recurse_loop H name env fns r1 w1)"

text \<open>\<open>recurse(name, source, __env__)\<close>, lines 424-468.\<close>

definition recurse :: "'s host \<Rightarrow> path \<Rightarrow> string \<Rightarrow> string \<Rightarrow> 's world \<Rightarrow> outcome \<times> 's world" where
  "recurse H name source env w =
     (let r = \<lparr>ret_name = name, ret_changes = [], ret_result = True, ret_comment = []\<rparr> in
      if \<not> os_path_isdir H (fs w) name \<and> os_path_exists H (fs w) name then
        (Returns (r\<lparr>ret_result := False,
           ret_comment := ''The path '' @ name @ '' exists and is not a directory''\<rparr>), w)
      else
        (case (if \<not> os_path_isdir H (fs w) name
               then do_call (MakedirsCall name) (os_makedirs H name) w else (None, w)) of
           (Some e, w1) \<Rightarrow> (Raises e, w1)
         | (None, w1) \<Rightarrow>
             (case file_cache_dir H source env (fs w1) of
                (fns, s2) \<Rightarrow> recurse_loop H name env fns r (w1\<lparr>fs := s2\<rparr>))))"

subsection \<open>Reading the log\<close>

text \<open>The calls of \<open>file.chown\<close>, and the calls of either permission provider.\<close>

fun is_chown :: "call \<Rightarrow> bool" where
  "is_chown (ChownCall p u g) = True"
| "is_chown c = False"

fun is_perm_call :: "call \<Rightarrow> bool" where
  "is_perm_call (ChownCall p u g) = True"
| "is_perm_call (SetModeCall p m) = True"
| "is_perm_call c = False"

subsection \<open>A small concrete host\<close>

text \<open>
  A host to run the functions on: the machine is a table from paths to nodes, a node is
  what is at the path (a file with its bytes, a directory, a symlink, a fifo) with its
  owner, group and mode. Sources are the files of the same table, \<open>cp.cache_file\<close>
  hands back the source's own path, the digest of some bytes is the bytes themselves.
  The flags say whether dry-run is set and whether \<open>file.chown\<close> and \<open>file.set_mode\<close>
  take effect.
\<close>

datatype kind = KFile string | KDir | KLink path | KFifo

type_synonym toy_fs = "(path \<times> kind \<times> string \<times> string \<times> string) list"

definition toy_kind :: "toy_fs \<Rightarrow> path \<Rightarrow> kind option" where
  "toy_kind s p = map_option fst (map_of s p)"

definition toy_dirname :: "path \<Rightarrow> path" where
  "toy_dirname p =
     (let head = rev (dropWhile (\<lambda>c. c \<noteq> CHR ''/'') (rev p))
      in if head \<noteq> [] \<and> (\<exists>c \<in> set head. c \<noteq> CHR ''/'')
         then rev (dropWhile (\<lambda>c. c = CHR ''/'') (rev head)) else head)"

definition toy_put :: "path \<Rightarrow> kind \<Rightarrow> toy_fs \<Rightarrow> exn option \<times> toy_fs" where
  "toy_put p k s = (None, AList.update p (k, ''root'', ''root'', ''600'') s)"

definition toy_delete :: "path \<Rightarrow> toy_fs \<Rightarrow> exn option \<times> toy_fs" where
  "toy_delete p s = (case map_of s p of None \<Rightarrow> (Some OSError, s) | Some n \<Rightarrow> (None, AList.delete p s))"

definition toy_copy :: "path \<Rightarrow> path \<Rightarrow> toy_fs \<Rightarrow> exn option \<times> toy_fs" where
  "toy_copy src dst s =
     (case toy_kind s src of
        Some (KFile bs) \<Rightarrow>
          (if toy_kind s (toy_dirname dst) = Some KDir then toy_put dst (KFile bs) s
           else (Some IOError, s))
      | _ \<Rightarrow> (Some IOError, s))"

definition toy_chown :: "bool \<Rightarrow> path \<Rightarrow> string option \<Rightarrow> string option \<Rightarrow> toy_fs \<Rightarrow> exn option \<times> toy_fs" where
  "toy_chown works p u g s =
     (case map_of s p of
        Some (k, u0, g0, m0) \<Rightarrow>
          if works
          then (None, AList.update p (k, case_option u0 id u, case_option g0 id g, m0) s)
          else (None, s)
      | None \<Rightarrow> (None, s))"

definition toy_set_mode :: "bool \<Rightarrow> path \<Rightarrow> string \<Rightarrow> toy_fs \<Rightarrow> exn option \<times> toy_fs" where
  "toy_set_mode works p m s =
     (case map_of s p of
        Some (k, u0, g0, m0) \<Rightarrow> if works then (None, AList.update p (k, u0, g0, m) s) else (None, s)
      | None \<Rightarrow> (None, s))"

definition toy_host :: "bool \<Rightarrow> bool \<Rightarrow> bool \<Rightarrow> toy_fs host" where
  "toy_host test chown_works chmod_works =
     \<lparr>os_path_isdir = (\<lambda>s p. toy_kind s p = Some KDir),
      os_path_isfile = (\<lambda>s p. case toy_kind s p of Some (KFile bs) \<Rightarrow> True | _ \<Rightarrow> False),
      os_path_islink = (\<lambda>s p. case toy_kind s p of Some (KLink t) \<Rightarrow> True | _ \<Rightarrow> False),
      os_path_exists = (\<lambda>s p. toy_kind s p \<noteq> None),
      os_path_dirname = toy_dirname,
      os_path_join = (\<lambda>a b. a @ ''/'' @ b),
      os_path_relpath = (\<lambda>p start. drop (Suc (length start)) p),
      os_readlink = (\<lambda>s p. case toy_kind s p of Some (KLink t) \<Rightarrow> Some t | _ \<Rightarrow> None),
      read_file = (\<lambda>s p. case toy_kind s p of Some (KFile bs) \<Rightarrow> Some bs | _ \<Rightarrow> None),
      os_remove = toy_delete,
      os_makedirs = (\<lambda>p. toy_put p KDir),
      os_symlink = (\<lambda>t p. toy_put p (KLink t)),
      shutil_copy = toy_copy,
      shutil_rmtree = toy_delete,
      hashlib = (\<lambda>t. if t = ''md5'' then Some (\<lambda>bs. bs) else None),
      hashlib_md5 = (\<lambda>bs. bs),
      unified_diff = (\<lambda>a b. map ((#) CHR ''-'') a @ map ((#) CHR ''+'') b),
      cp_hash_file = (\<lambda>s src env. case toy_kind s src of Some (KFile bs) \<Rightarrow> Some (''md5'', bs) | _ \<Rightarrow> None),
      cp_cache_file = (\<lambda>src env s. case toy_kind s src of Some (KFile bs) \<Rightarrow> (Some src, s) | _ \<Rightarrow> (None, s)),
      file_cache_dir = (\<lambda>src env s. (filter (\<lambda>p. take (length src) p = src) (map fst s), s)),
      file_get_user = (\<lambda>s p. case map_of s p of Some (k, u, g, m) \<Rightarrow> u | None \<Rightarrow> []),
      file_get_group = (\<lambda>s p. case map_of s p of Some (k, u, g, m) \<Rightarrow> g | None \<Rightarrow> []),
      file_get_mode = (\<lambda>s p. case map_of s p of Some (k, u, g, m) \<Rightarrow> m | None \<Rightarrow> []),
      file_chown = toy_chown chown_works,
      file_set_mode = toy_set_mode chmod_works,
      import_mako = False,
      import_jinja2 = False,
      mako_render = (\<lambda>p s. (Inl ''Traceback'', s)),
      jinja_render = (\<lambda>p s. (Inl ''Traceback'', s)),
      ambient_globals = [''__salt__'', ''__opts__'', ''__grains__'', ''__name__'', ''__doc__''],
      opts_test = test,
      opts_cachedir = ''/var/cache/salt''\<rparr>"

text \<open>Two machines to run on: one with the source \<open>pkg://app.conf\<close> and the directory
  \<open>/etc\<close>, and the same with a file \<open>/etc/app.conf\<close> of given bytes and mode.\<close>

definition toy_fresh :: toy_fs where
  "toy_fresh = [(''pkg://app.conf'', KFile ''port=80'', ''root'', ''root'', ''644''),
                (''/etc'', KDir, ''root'', ''root'', ''755'')]"

definition toy_present :: "string \<Rightarrow> string \<Rightarrow> toy_fs" where
  "toy_present bs m = toy_fresh @ [(''/etc/app.conf'', KFile bs, ''root'', ''root'', m)]"

section \<open>Properties\<close>

subsection \<open>What each part of a call adds to the log\<close>

lemma do_call_trace: "do_call c f w = (e, w') \<Longrightarrow> trace w' = trace w @ [c]"
  by (auto simp: do_call_def split: prod.splits)

lemma u_makedirs_filter:
  assumes "\<And>a. \<not> P (MakedirsCall a)" and "u_makedirs H p w = (e, w')"
  shows "filter P (trace w') = filter P (trace w)"
  using assms by (auto simp: u_makedirs_def split: if_splits dest: do_call_trace)

lemma call_global_filter:
  assumes "\<And>a. \<not> P (MakedirsCall a)" and "call_global H g sfn w = (x, w')"
  shows "filter P (trace w') = filter P (trace w)"
  using assms(2) u_makedirs_filter [of P H sfn w, OF assms(1)]
  by (cases g) (auto simp: call_global_def split: prod.splits option.splits)

lemma call_global_trace:
  "g \<noteq> G_makedirs \<Longrightarrow> call_global H g sfn w = (x, w') \<Longrightarrow> trace w' = trace w"
  by (cases g) (auto simp: call_global_def split: prod.splits option.splits)

lemma globals_get_makedirs:
  "globals_get H (CHR ''_'' # t) = Some G_makedirs \<Longrightarrow> t = ''makedirs''"
  by (auto simp: globals_get_def split: if_splits)

lemma template_existing_filter:
  assumes "\<And>a. \<not> P (MakedirsCall a)" and "template_existing H template sfn r w = (x, w')"
  shows "filter P (trace w') = filter P (trace w)"
  using assms(2) call_global_filter [of P H _ sfn w, OF assms(1)]
  by (auto simp: template_existing_def split: option.splits prod.splits sum.splits pyval.splits if_splits)

lemma template_new_filter:
  assumes "\<And>a. \<not> P (MakedirsCall a)" and "template_new H template sfn r w = (x, w')"
  shows "filter P (trace w') = filter P (trace w)"
  using assms(2) call_global_filter [of P H _ sfn w, OF assms(1)]
  by (auto simp: template_new_def split: option.splits prod.splits sum.splits pyval.splits if_splits)

lemma dispatch_trace:
  assumes "globals_get H (CHR ''_'' # t) = Some g" and "t \<noteq> ''makedirs''"
    and "call_global H g sfn w = (x, w')"
  shows "trace w' = trace w"
proof -
  from assms(1,2) have "g \<noteq> G_makedirs" using globals_get_makedirs by blast
  then show ?thesis using assms(3) by (rule call_global_trace)
qed

lemma template_existing_trace:
  assumes "template \<noteq> Some ''makedirs''" and "template_existing H template sfn r w = (x, w')"
  shows "trace w' = trace w"
  using assms
  by (auto simp: template_existing_def split: option.splits prod.splits sum.splits pyval.splits if_splits
           dest: dispatch_trace)

lemma template_new_trace:
  assumes "template \<noteq> Some ''makedirs''" and "template_new H template sfn r w = (x, w')"
  shows "trace w' = trace w"
  using assms
  by (auto simp: template_new_def split: option.splits prod.splits sum.splits pyval.splits if_splits
           dest: dispatch_trace)

lemma managed_content_filter:
  assumes "\<And>a. \<not> P (MakedirsCall a)" and "\<And>a b. \<not> P (CopyCall a b)"
    and "managed_content H name source template env r w = (x, w')"
  shows "filter P (trace w') = filter P (trace w)"
  using assms(3) assms(2)
  by (auto simp: managed_content_def Let_def split: option.splits prod.splits sum.splits if_splits
           dest!: template_existing_filter [of P, OF assms(1)] do_call_trace)

lemma managed_create_filter:
  assumes "\<And>a. \<not> P (MakedirsCall a)" and "\<And>a b. \<not> P (CopyCall a b)"
    and "managed_create H name source template makedirs env r w = (x, w')"
  shows "filter P (trace w') = filter P (trace w)"
  using assms(3) assms(2)
  by (auto simp: managed_create_def Let_def split: option.splits prod.splits sum.splits if_splits
           dest!: template_new_filter [of P, OF assms(1)] u_makedirs_filter [of P, OF assms(1)] do_call_trace)

lemma managed_content_test:
  assumes "opts_test H" and "template \<noteq> Some ''makedirs''"
    and "managed_content H name source template env r w = (x, w')"
  shows "trace w' = trace w"
  using assms
  by (auto simp: managed_content_def Let_def split: option.splits prod.splits sum.splits if_splits
           dest!: template_existing_trace)

lemma managed_create_test:
  assumes "opts_test H" and "template \<noteq> Some ''makedirs''"
    and "managed_create H name source template makedirs env r w = (x, w')"
  shows "trace w' = trace w"
  using assms
  by (auto simp: managed_create_def Let_def split: option.splits prod.splits sum.splits if_splits
           dest!: template_new_trace)

lemma perms_apply_test:
  assumes "opts_test H" and "perms_apply H name user grp mode r w = (x, w')"
  shows "trace w' = trace w"
  using assms
  by (auto simp: perms_apply_def Let_def split: option.splits prod.splits sum.splits if_splits)

lemma directory_ensure_filter:
  assumes "\<And>a. \<not> P (MakedirsCall a)"
    and "directory_ensure H name makedirs r w = (x, w')"
  shows "filter P (trace w') = filter P (trace w)"
  using assms(2) assms(1)
  by (auto simp: directory_ensure_def Let_def split: option.splits prod.splits sum.splits if_splits
           dest!: u_makedirs_filter [of P, OF assms(1)] do_call_trace)

lemma perms_apply_chown_once:
  assumes "\<not> opts_test H"
    and "(truthy user \<and> user \<noteq> Some (file_get_user H (fs w) name))
         \<or> (truthy grp \<and> grp \<noteq> Some (file_get_group H (fs w) name))"
    and "perms_apply H name user grp mode r w = (x, w')"
  shows "filter is_chown (trace w') = filter is_chown (trace w) @ [ChownCall name user grp]"
  using assms
  by (auto simp: perms_apply_def Let_def split: option.splits prod.splits if_splits
           dest!: do_call_trace)

lemma chown_once_after:
  assumes "\<not> opts_test H"
    and "(truthy user \<and> user \<noteq> Some (file_get_user H (fs w1) name))
         \<or> (truthy grp \<and> grp \<noteq> Some (file_get_group H (fs w1) name))"
    and "filter is_chown (trace w1) = filter is_chown (trace w)"
  shows "filter is_chown (trace (snd (case perms_apply H name user grp mode r1 w1 of
             (Inl e, w2) \<Rightarrow> (Raises e, w2)
           | (Inr (r2, cuser, cgroup), w2) \<Rightarrow> (Returns (f w2 cuser cgroup r2), w2)))) =
         filter is_chown (trace w) @ [ChownCall name user grp]"
proof -
  obtain y w2 where p: "perms_apply H name user grp mode r1 w1 = (y, w2)" by fastforce
  then have "filter is_chown (trace w2) = filter is_chown (trace w1) @ [ChownCall name user grp]"
    using perms_apply_chown_once [OF assms(1,2)] by blast
  then show ?thesis using p assms(3) by (cases y) auto
qed

subsection \<open>What each part of a call does to the result\<close>

lemma str_nat_nonempty: "str_nat n \<noteq> []"
  by (subst str_nat.simps) simp

lemma norm_mode_nonempty: "norm_mode mode = Some m \<Longrightarrow> m \<noteq> []"
  by (cases mode) (auto simp: str_int_def str_nat_nonempty split: if_splits)

lemma verify_owner_keeps:
  "ret_name (verify_owner H s name user grp cu cg r) = ret_name r"
  "\<not> ret_result r \<Longrightarrow> \<not> ret_result (verify_owner H s name user grp cu cg r)"
  "k \<noteq> ''user'' \<Longrightarrow> k \<noteq> ''group'' \<Longrightarrow>
     map_of (ret_changes (verify_owner H s name user grp cu cg r)) k = map_of (ret_changes r) k"
  by (auto simp: verify_owner_def Let_def update_conv' split: option.splits)

lemma managed_comment_keeps:
  "ret_name (managed_comment H name r) = ret_name r"
  "ret_result (managed_comment H name r) = ret_result r"
  "ret_changes (managed_comment H name r) = ret_changes r"
  by (auto simp: managed_comment_def Let_def)

lemma managed_comment_test:
  "opts_test H \<Longrightarrow> ret_comment (managed_comment H name r) = ''File '' @ name @ '' not updated''"
  by (auto simp: managed_comment_def Let_def)

lemma managed_content_same_sum:
  assumes "cp_hash_file H (fs w) source env = Some (ht, hsum)" and "hashlib H ht = Some h"
    and "read_file H (fs w) name = Some bytes" and "hsum = h bytes"
  shows "managed_content H name source template env r w = (Inr r, w)"
  using assms by (simp add: managed_content_def)

lemma perms_apply_dry:
  assumes "opts_test H"
  shows "perms_apply H name user grp mode r w =
           (Inr (case mode of
                   None \<Rightarrow> r
                 | Some m \<Rightarrow>
                     if m \<noteq> [] \<and> m \<noteq> file_get_mode H (fs w) name
                     then r\<lparr>ret_result := False, ret_comment := ret_comment r @ ''Mode not changed ''\<rparr>
                     else r,
                 truthy user \<and> user \<noteq> Some (file_get_user H (fs w) name),
                 truthy grp \<and> grp \<noteq> Some (file_get_group H (fs w) name)), w)"
  using assms by (simp add: perms_apply_def Let_def split: option.splits)

lemma content_diff_read:
  assumes "read_file H s sfn = Some sbytes" and "read_file H s name = Some nbytes"
  shows "content_diff H s sfn name =
           Inr (if is_bin_bytes sbytes \<or> is_bin_bytes nbytes then ''Replace binary file''
                else join_nl (unified_diff H (readlines sbytes) (readlines nbytes)))"
  using assms by (simp add: content_diff_def u_is_bin_def)

lemma perms_apply_returns:
  assumes "\<forall>u g s. fst (file_chown H name u g s) = None"
    and "\<forall>m s. fst (file_set_mode H name m s) = None"
    and "k \<noteq> ''mode''"
  shows "\<exists>r2 cu cg w2. perms_apply H name user grp mode r w = (Inr (r2, cu, cg), w2)
           \<and> map_of (ret_changes r2) k = map_of (ret_changes r) k"
proof -
  have c: "\<And>u g w0. \<exists>w1. do_call (ChownCall name u g) (file_chown H name u g) w0 = (None, w1)"
    using assms(1) by (auto simp: do_call_def split: prod.splits dest: arg_cong [where f = fst])
  have m: "\<And>x w0. \<exists>w1. do_call (SetModeCall name x) (file_set_mode H name x) w0 = (None, w1)"
    using assms(2) by (auto simp: do_call_def split: prod.splits dest: arg_cong [where f = fst])
  have "\<exists>w1. (if ((truthy user \<and> user \<noteq> Some (file_get_user H (fs w) name))
                 \<or> (truthy grp \<and> grp \<noteq> Some (file_get_group H (fs w) name))) \<and> \<not> opts_test H
               then do_call (ChownCall name user grp) (file_chown H name user grp) w
               else (None, w)) = (None, w1)"
    by (simp add: c)
  then obtain w1 where w1: "(if ((truthy user \<and> user \<noteq> Some (file_get_user H (fs w) name))
                 \<or> (truthy grp \<and> grp \<noteq> Some (file_get_group H (fs w) name))) \<and> \<not> opts_test H
               then do_call (ChownCall name user grp) (file_chown H name user grp) w
               else (None, w)) = (None, w1)"
    by blast
  show ?thesis
  proof (cases mode)
    case None
    then show ?thesis using w1 by (simp add: perms_apply_def Let_def)
  next
    case (Some x)
    have "\<exists>w2. (if \<not> opts_test H
                           then do_call (SetModeCall name x) (file_set_mode H name x) w1
                           else (None, w1)) = (None, w2)"
      by (simp add: m)
    then obtain w2 where w2: "(if \<not> opts_test H
                           then do_call (SetModeCall name x) (file_set_mode H name x) w1
                           else (None, w1)) = (None, w2)"
      by blast
    show ?thesis using Some w1 w2 assms(3)
      by (simp add: perms_apply_def Let_def update_conv')
  qed
qed

subsection \<open>The dry-run flag\<close>

lemma u_makedirs_flag: "u_makedirs (H\<lparr>opts_test := b\<rparr>) p w = u_makedirs H p w"
  by (simp add: u_makedirs_def)

lemma recurse_file_flag:
  "recurse_file (H\<lparr>opts_test := b\<rparr>) name env fn r w = recurse_file H name env fn r w"
  by (simp add: recurse_file_def u_makedirs_flag Let_def
           cong: if_cong prod.case_cong option.case_cong)

lemma recurse_loop_flag:
  "recurse_loop (H\<lparr>opts_test := b\<rparr>) name env fns r w = recurse_loop H name env fns r w"
  by (induction fns arbitrary: r w) (auto simp: recurse_file_flag split: prod.splits sum.splits)

lemma managed_test_trace:
  assumes "opts_test H" and "template \<noteq> Some ''makedirs''"
  shows "trace (snd (managed H name source user grp mode template makedirs env w)) = trace w"
proof -
  let ?r0 = "\<lparr>ret_name = name, ret_changes = [], ret_result = True, ret_comment = []\<rparr>"
  obtain x w1 where c: "(if os_path_isfile H (fs w) name
        then managed_content H name source template env ?r0 w
        else managed_create H name source template makedirs env ?r0 w) = (x, w1)"
    by fastforce
  then have t1: "trace w1 = trace w"
    using managed_content_test [OF assms] managed_create_test [OF assms] by (auto split: if_splits)
  show ?thesis
  proof (cases x)
    case (Inl out)
    then show ?thesis using c t1 by (auto simp: managed_def split: if_splits)
  next
    case (Inr r1)
    obtain y w2 where p: "perms_apply H name user grp (norm_mode mode) r1 w1 = (y, w2)"
      by fastforce
    then have "trace w2 = trace w1" using perms_apply_test [OF assms(1)] by blast
    then show ?thesis using c Inr p t1
      by (cases y) (auto simp: managed_def split: if_splits)
  qed
qed

lemma directory_perm_calls_test:
  assumes "opts_test H"
  shows "filter is_perm_call (trace (snd (directory H name user grp mode makedirs w))) =
         filter is_perm_call (trace w)"
proof -
  let ?r0 = "\<lparr>ret_name = name, ret_changes = [], ret_result = True, ret_comment = []\<rparr>"
  obtain x w1 where c: "directory_ensure H name makedirs ?r0 w = (x, w1)"
    by fastforce
  then have t1: "filter is_perm_call (trace w1) = filter is_perm_call (trace w)"
    using directory_ensure_filter [of is_perm_call] by simp
  show ?thesis
  proof (cases x)
    case (Inl out)
    then show ?thesis using c t1 by (simp add: directory_def)
  next
    case (Inr u)
    obtain y w2 where p: "perms_apply H name user grp (norm_mode mode) ?r0 w1 = (y, w2)"
      by fastforce
    then have "trace w2 = trace w1" using perms_apply_test [OF assms(1)] by blast
    then show ?thesis using c Inr p t1
      by (cases y) (auto simp: directory_def)
  qed
qed

subsection \<open>Dry run\<close>

text \<open>
  C1, as the code has it. The claim says that no reconciler makes a mutating call when
  \<open>__opts__['test']\<close> is set. \<open>symlink\<close>, \<open>absent\<close> and \<open>recurse\<close> never read the flag,
  so they make the same calls with it set as with it clear. What holds with the flag set:
  \<open>managed\<close> makes none of the logged calls (for every template other than
  \<open>'makedirs'\<close>, whose key \<open>'_makedirs'\<close> names the module's own helper), and
  \<open>directory\<close> calls neither \<open>file.chown\<close> nor \<open>file.set_mode\<close>.
\<close>

theorem dry_run_gates_managed:
  assumes "opts_test H"
  shows "(template \<noteq> Some ''makedirs'' \<longrightarrow>
            trace (snd (managed H name source user grp mode template makedirs env w)) = trace w)
       \<and> filter is_perm_call (trace (snd (directory H name user grp mode makedirs w))) =
           filter is_perm_call (trace w)
       \<and> symlink (H\<lparr>opts_test := False\<rparr>) name target force makedirs w = symlink H name target force makedirs w
       \<and> absent (H\<lparr>opts_test := False\<rparr>) name w = absent H name w
       \<and> recurse (H\<lparr>opts_test := False\<rparr>) name source env w = recurse H name source env w"
proof -
  have "symlink (H\<lparr>opts_test := False\<rparr>) name target force makedirs w = symlink H name target force makedirs w"
    by (simp add: symlink_def symlink_occupied_def u_makedirs_flag Let_def
             cong: if_cong prod.case_cong option.case_cong sum.case_cong)
  moreover have "absent (H\<lparr>opts_test := False\<rparr>) name w = absent H name w"
    by (simp add: absent_def Let_def cong: if_cong prod.case_cong option.case_cong)
  moreover have "recurse (H\<lparr>opts_test := False\<rparr>) name source env w = recurse H name source env w"
    by (simp add: recurse_def recurse_loop_flag Let_def cong: if_cong prod.case_cong option.case_cong)
  ultimately show ?thesis
    using managed_test_trace [OF assms] directory_perm_calls_test [OF assms] by simp
qed

theorem dry_run_gates_managed_witness:
  "opts_test (toy_host True True True)
   \<and> trace (snd (managed (toy_host True True True) ''/etc/app.conf'' ''pkg://app.conf''
          (Some ''bob'') None (MStr ''644'') None True ''base''
          \<lparr>fs = toy_present ''port=81'' ''600'', trace = []\<rparr>)) = []
   \<and> filter is_perm_call (trace (snd (directory (toy_host True True True) ''/etc/app.conf''
          (Some ''bob'') None (MStr ''644'') True
          \<lparr>fs = toy_present ''port=81'' ''600'', trace = []\<rparr>))) = []"
proof -
  have t: "opts_test (toy_host True True True)"
    by (simp add: toy_host_def)
  show ?thesis
    using t dry_run_gates_managed [OF t, where template = None and name = "''/etc/app.conf''"
      and source = "''pkg://app.conf''" and user = "Some ''bob''" and grp = None
      and mode = "MStr ''644''" and makedirs = True and env = "''base''"
      and w = "\<lparr>fs = toy_present ''port=81'' ''600'', trace = []\<rparr>"]
    by simp
qed

text \<open>With the flag set and nothing at \<open>name\<close>, \<open>symlink\<close> calls \<open>os.symlink\<close>.\<close>

theorem dry_run_symlink_counterexample:
  "opts_test (toy_host True True True)
   \<and> trace (snd (symlink (toy_host True True True) ''/srv/cur'' ''/srv/v1'' False False
          \<lparr>fs = [(''/srv'', KDir, ''root'', ''root'', ''755'')], trace = []\<rparr>)) =
       [SymlinkCall ''/srv/v1'' ''/srv/cur'']"
  by (simp add: symlink_def symlink_occupied_def do_call_def toy_host_def toy_kind_def
        toy_dirname_def toy_put_def)

text \<open>
  C2. The claim says that a dry run of \<open>managed\<close> is never marked false because of a
  permission change it did not apply, and that the pending change is reported. The code,
  with the flag set, on a file that exists with the source's content: no call is made and
  the machine is unchanged, but lines 237, 243 and 249 read the mode, the owner and the
  group again, so \<open>result\<close> is false exactly when one of the three is wanted and differs,
  and no change is recorded.
\<close>

theorem managed_dry_run_pending_permission_fails:
  assumes "opts_test H"
    and "os_path_isfile H (fs w) name"
    and "cp_hash_file H (fs w) source env = Some (ht, hsum)"
    and "hashlib H ht = Some h"
    and "read_file H (fs w) name = Some bytes"
    and "hsum = h bytes"
  shows "managed H name source user grp mode template makedirs env w =
           (Returns \<lparr>ret_name = name, ret_changes = [],
              ret_result = (\<not> ((\<exists>m. norm_mode mode = Some m \<and> m \<noteq> file_get_mode H (fs w) name)
                              \<or> (truthy user \<and> user \<noteq> Some (file_get_user H (fs w) name))
                              \<or> (truthy grp \<and> grp \<noteq> Some (file_get_group H (fs w) name)))),
              ret_comment = ''File '' @ name @ '' not updated''\<rparr>, w)"
proof -
  let ?r0 = "\<lparr>ret_name = name, ret_changes = [], ret_result = True, ret_comment = []\<rparr>"
  have c: "managed_content H name source template env ?r0 w = (Inr ?r0, w)"
    using assms(3-6) by (rule managed_content_same_sum)
  have n: "\<And>m. norm_mode mode = Some m \<Longrightarrow> m \<noteq> []" by (rule norm_mode_nonempty)
  show ?thesis
    using assms(1,2) c n
    by (cases "norm_mode mode"; cases user; cases grp)
       (auto simp: managed_def perms_apply_dry verify_owner_def managed_comment_def Let_def)
qed

theorem managed_dry_run_pending_permission_fails_witness:
  "managed (toy_host True True True) ''/etc/app.conf'' ''pkg://app.conf'' None None
       (MStr ''644'') None False ''base'' \<lparr>fs = toy_present ''port=80'' ''600'', trace = []\<rparr> =
     (Returns \<lparr>ret_name = ''/etc/app.conf'', ret_changes = [], ret_result = False,
        ret_comment = ''File /etc/app.conf not updated''\<rparr>,
      \<lparr>fs = toy_present ''port=80'' ''600'', trace = []\<rparr>)"
  using managed_dry_run_pending_permission_fails [where H = "toy_host True True True"
      and w = "\<lparr>fs = toy_present ''port=80'' ''600'', trace = []\<rparr>" and name = "''/etc/app.conf''"
      and source = "''pkg://app.conf''" and env = "''base''" and ht = "''md5''"
      and hsum = "''port=80''" and h = "\<lambda>bs. bs" and bytes = "''port=80''"
      and mode = "MStr ''644''" and user = None and grp = None
      and template = None and makedirs = False]
  by (simp add: toy_host_def toy_kind_def toy_fresh_def toy_present_def)

subsection \<open>A new file\<close>

text \<open>
  C3, as the code has it. For a path with no file, a source that is found, dry-run off,
  no owner, group or template, and a mode that the copied file does not have and that
  \<open>file.set_mode\<close> then gives it: \<open>managed\<close> copies, sets the mode, and returns the
  changes \<open>{'diff': 'New file', 'mode': mode}\<close> with the comment
  \<open>'File <name> updated'\<close>. The claim has the key \<open>'new'\<close> and the comment without
  \<open>'File '\<close>.
\<close>

theorem managed_new_file_with_mode:
  assumes "\<not> opts_test H"
    and "\<not> os_path_isfile H (fs w) name"
    and "cp_cache_file H source env (fs w) = (Some sfn, s1)" and "sfn \<noteq> []"
    and "shutil_copy H sfn name s1 = (None, s2)"
    and "m \<noteq> []" and "m \<noteq> file_get_mode H s2 name"
    and "file_set_mode H name m s2 = (None, s3)"
    and "file_get_mode H s3 name = m"
  shows "managed H name source None None (MStr m) None False env w =
           (Returns \<lparr>ret_name = name, ret_changes = [(''diff'', ''New file''), (''mode'', m)],
              ret_result = True, ret_comment = ''File '' @ name @ '' updated''\<rparr>,
            \<lparr>fs = s3, trace = trace w @ [CopyCall sfn name, SetModeCall name m]\<rparr>)"
proof -
  let ?r0 = "\<lparr>ret_name = name, ret_changes = [], ret_result = True, ret_comment = []\<rparr>"
  let ?w1 = "\<lparr>fs = s2, trace = trace w @ [CopyCall sfn name]\<rparr>"
  have c: "managed_create H name source None False env ?r0 w =
      (Inr (?r0\<lparr>ret_changes := [(''diff'', ''New file'')]\<rparr>), ?w1)"
    using assms(1,3,4,5) by (simp add: managed_create_def template_new_def do_call_def)
  have p: "perms_apply H name None None (Some m) (?r0\<lparr>ret_changes := [(''diff'', ''New file'')]\<rparr>) ?w1 =
      (Inr (?r0\<lparr>ret_changes := [(''diff'', ''New file''), (''mode'', m)]\<rparr>, False, False),
       \<lparr>fs = s3, trace = trace w @ [CopyCall sfn name, SetModeCall name m]\<rparr>)"
    using assms(1,6-9) by (simp add: perms_apply_def do_call_def)
  show ?thesis
    using assms(2,6) c p
    by (simp add: managed_def verify_owner_new_def managed_comment_def assms(1))
qed

theorem managed_new_file_with_mode_witness:
  "managed (toy_host False True True) ''/etc/app.conf'' ''pkg://app.conf'' None None
       (MStr ''644'') None False ''base'' \<lparr>fs = toy_fresh, trace = []\<rparr> =
     (Returns \<lparr>ret_name = ''/etc/app.conf'',
        ret_changes = [(''diff'', ''New file''), (''mode'', ''644'')],
        ret_result = True, ret_comment = ''File /etc/app.conf updated''\<rparr>,
      \<lparr>fs = toy_present ''port=80'' ''644'',
       trace = [CopyCall ''pkg://app.conf'' ''/etc/app.conf'', SetModeCall ''/etc/app.conf'' ''644'']\<rparr>)"
  using managed_new_file_with_mode [where H = "toy_host False True True"
      and w = "\<lparr>fs = toy_fresh, trace = []\<rparr>" and name = "''/etc/app.conf''"
      and source = "''pkg://app.conf''" and env = "''base''" and sfn = "''pkg://app.conf''"
      and ?s1.0 = toy_fresh and ?s2.0 = "toy_present ''port=80'' ''600''" and m = "''644''"
      and ?s3.0 = "toy_present ''port=80'' ''644''"]
  by (simp add: toy_host_def toy_kind_def toy_fresh_def toy_present_def toy_copy_def toy_put_def
        toy_dirname_def toy_set_mode_def)

text \<open>The claim's own example: the result has no key \<open>'new'\<close> and another comment.\<close>

theorem managed_new_file_example_counterexample:
  "managed (toy_host False True True) ''/etc/app.conf'' ''pkg://app.conf'' None None
       (MStr ''644'') None False ''base'' \<lparr>fs = toy_fresh, trace = []\<rparr> =
     (Returns \<lparr>ret_name = ''/etc/app.conf'',
        ret_changes = [(''diff'', ''New file''), (''mode'', ''644'')],
        ret_result = True, ret_comment = ''File /etc/app.conf updated''\<rparr>,
      \<lparr>fs = toy_present ''port=80'' ''644'',
       trace = [CopyCall ''pkg://app.conf'' ''/etc/app.conf'', SetModeCall ''/etc/app.conf'' ''644'']\<rparr>)
   \<and> fst (managed (toy_host False True True) ''/etc/app.conf'' ''pkg://app.conf'' None None
       (MStr ''644'') None False ''base'' \<lparr>fs = toy_fresh, trace = []\<rparr>) \<noteq>
     Returns \<lparr>ret_name = ''/etc/app.conf'',
        ret_changes = [(''new'', ''New file''), (''mode'', ''644'')],
        ret_result = True, ret_comment = ''/etc/app.conf updated''\<rparr>"
  by (simp add: managed_def managed_create_def template_new_def perms_apply_def verify_owner_new_def
        managed_comment_def do_call_def toy_host_def toy_kind_def toy_fresh_def toy_present_def
        toy_copy_def toy_put_def toy_dirname_def toy_set_mode_def)

subsection \<open>Templates\<close>

text \<open>
  C4. The claim says that a template with no function behind it gives a failed result
  with a detail and never an exception. The code, for a template whose key
  \<open>'_' + template\<close> is not in \<open>globals()\<close>: where the file exists and the sums differ,
  \<open>data\<close> is never assigned and line 198 raises \<open>UnboundLocalError\<close>; where the file is
  absent, \<open>data = {}\<close> makes the call return a failed result, with an empty comment.
\<close>

theorem managed_unregistered_template:
  assumes "t \<noteq> []" and "globals_get H (CHR ''_'' # t) = None"
    and "cp_cache_file H source env (fs w) = (Some sfn, s1)" and "sfn \<noteq> []"
  shows "(os_path_isfile H (fs w) name \<and> cp_hash_file H (fs w) source env = Some (ht, hsum)
            \<and> hashlib H ht = Some h \<and> read_file H (fs w) name = Some bytes \<and> hsum \<noteq> h bytes
          \<longrightarrow> managed H name source user grp mode (Some t) makedirs env w =
                (Raises UnboundLocalError, w\<lparr>fs := s1\<rparr>))
       \<and> (\<not> os_path_isfile H (fs w) name
          \<longrightarrow> managed H name source user grp mode (Some t) makedirs env w =
                (Returns \<lparr>ret_name = name, ret_changes = [], ret_result = False, ret_comment = []\<rparr>,
                 w\<lparr>fs := s1\<rparr>))"
  using assms
  by (simp add: managed_def managed_content_def managed_create_def template_existing_def template_new_def)

theorem managed_unregistered_template_witness:
  "managed (toy_host False True True) ''/etc/app.conf'' ''pkg://app.conf'' None None MNone
       (Some ''foo'') False ''base'' \<lparr>fs = toy_present ''port=81'' ''600'', trace = []\<rparr> =
     (Raises UnboundLocalError, \<lparr>fs = toy_present ''port=81'' ''600'', trace = []\<rparr>)
   \<and> managed (toy_host False True True) ''/etc/app.conf'' ''pkg://app.conf'' None None MNone
       (Some ''foo'') False ''base'' \<lparr>fs = toy_fresh, trace = []\<rparr> =
     (Returns \<lparr>ret_name = ''/etc/app.conf'', ret_changes = [], ret_result = False, ret_comment = []\<rparr>,
      \<lparr>fs = toy_fresh, trace = []\<rparr>)"
  using managed_unregistered_template [where H = "toy_host False True True" and t = "''foo''"
      and w = "\<lparr>fs = toy_present ''port=81'' ''600'', trace = []\<rparr>" and name = "''/etc/app.conf''"
      and source = "''pkg://app.conf''" and env = "''base''" and sfn = "''pkg://app.conf''"
      and ?s1.0 = "toy_present ''port=81'' ''600''" and ht = "''md5''" and hsum = "''port=80''"
      and h = "\<lambda>bs. bs" and bytes = "''port=81''" and user = None and grp = None and mode = MNone
      and makedirs = False]
    managed_unregistered_template [where H = "toy_host False True True" and t = "''foo''"
      and w = "\<lparr>fs = toy_fresh, trace = []\<rparr>" and name = "''/etc/app.conf''"
      and source = "''pkg://app.conf''" and env = "''base''" and sfn = "''pkg://app.conf''"
      and ?s1.0 = toy_fresh and user = None and grp = None and mode = MNone and makedirs = False]
  by (simp add: toy_host_def toy_kind_def toy_fresh_def toy_present_def globals_get_def)

subsection \<open>Failures in the comment\<close>

text \<open>
  C5. The claim says that failure fragments are appended to the comment, so that after a
  failed mode and a failed user on an existing file the comment still has the mode's
  fragment. The code at that input (dry-run off, file present with the source's content,
  the mode and the user both still wrong after \<open>file.chown\<close> and \<open>file.set_mode\<close>): line
  245 assigns the comment, and the result carries \<open>'Failed to change user to <user> '\<close>
  alone. Lines 320 (the file was absent) and 251 (the group) append.
\<close>

theorem managed_user_failure_overwrites_comment:
  assumes "\<not> opts_test H"
    and "os_path_isfile H (fs w) name"
    and "cp_hash_file H (fs w) source env = Some (ht, hsum)"
    and "hashlib H ht = Some h"
    and "read_file H (fs w) name = Some bytes"
    and "hsum = h bytes"
    and "u \<noteq> []" and "u \<noteq> file_get_user H (fs w) name"
    and "file_chown H name (Some u) None (fs w) = (None, s1)"
    and "norm_mode mode = Some m" and "m \<noteq> file_get_mode H (fs w) name"
    and "file_set_mode H name m s1 = (None, s2)"
    and "m \<noteq> file_get_mode H s2 name"
    and "u \<noteq> file_get_user H s2 name"
  shows "managed H name source (Some u) None mode template makedirs env w =
           (Returns \<lparr>ret_name = name, ret_changes = [], ret_result = False,
              ret_comment = ''Failed to change user to '' @ u @ '' ''\<rparr>,
            \<lparr>fs = s2, trace = trace w @ [ChownCall name (Some u) None, SetModeCall name m]\<rparr>)"
proof -
  let ?r0 = "\<lparr>ret_name = name, ret_changes = [], ret_result = True, ret_comment = []\<rparr>"
  have c: "managed_content H name source template env ?r0 w = (Inr ?r0, w)"
    using assms(3-6) by (rule managed_content_same_sum)
  from assms(10) have m: "m \<noteq> []" by (rule norm_mode_nonempty)
  have p: "perms_apply H name (Some u) None (Some m) ?r0 w =
      (Inr (?r0\<lparr>ret_result := False, ret_comment := ''Mode not changed ''\<rparr>, True, False),
       \<lparr>fs = s2, trace = trace w @ [ChownCall name (Some u) None, SetModeCall name m]\<rparr>)"
    using assms(1,7-9,11-13) m by (simp add: perms_apply_def do_call_def)
  show ?thesis
    using assms(1,2,7,10,14) c p
    by (simp add: managed_def verify_owner_def managed_comment_def)
qed

theorem managed_user_failure_overwrites_comment_witness:
  "managed (toy_host False False False) ''/etc/app.conf'' ''pkg://app.conf'' (Some ''bob'') None
       (MStr ''644'') None False ''base'' \<lparr>fs = toy_present ''port=80'' ''600'', trace = []\<rparr> =
     (Returns \<lparr>ret_name = ''/etc/app.conf'', ret_changes = [], ret_result = False,
        ret_comment = ''Failed to change user to bob ''\<rparr>,
      \<lparr>fs = toy_present ''port=80'' ''600'',
       trace = [ChownCall ''/etc/app.conf'' (Some ''bob'') None, SetModeCall ''/etc/app.conf'' ''644'']\<rparr>)"
  using managed_user_failure_overwrites_comment [where H = "toy_host False False False"
      and w = "\<lparr>fs = toy_present ''port=80'' ''600'', trace = []\<rparr>" and name = "''/etc/app.conf''"
      and source = "''pkg://app.conf''" and env = "''base''" and ht = "''md5''"
      and hsum = "''port=80''" and h = "\<lambda>bs. bs" and bytes = "''port=80''" and u = "''bob''"
      and ?s1.0 = "toy_present ''port=80'' ''600''" and ?s2.0 = "toy_present ''port=80'' ''600''"
      and mode = "MStr ''644''" and m = "''644''" and template = None and makedirs = False]
  by (simp add: toy_host_def toy_kind_def toy_fresh_def toy_present_def toy_chown_def toy_set_mode_def)

subsection \<open>The recorded diff\<close>

text \<open>
  C8. \<open>managed\<close> on an existing file whose digest differs from the source's, with the
  source fetched, the template step passed (\<open>sfn\<close> is the artifact it leaves), both files
  readable, and the copy and the permission providers not raising: the call returns, and
  the change under \<open>'diff'\<close> is \<open>'Replace binary file'\<close> when either file has a NUL among
  its first 2048 bytes, and otherwise the lines of \<open>difflib.unified_diff\<close> of the two
  files' lines, joined by newlines.
\<close>

theorem managed_diff_binary_or_unified:
  assumes "os_path_isfile H (fs w) name"
    and "cp_hash_file H (fs w) source env = Some (ht, hsum)"
    and "hashlib H ht = Some h"
    and "read_file H (fs w) name = Some bytes"
    and "hsum \<noteq> h bytes"
    and "cp_cache_file H source env (fs w) = (Some sfn0, s1)" and "sfn0 \<noteq> []"
    and "template_existing H template sfn0
           \<lparr>ret_name = name, ret_changes = [], ret_result = True, ret_comment = []\<rparr>
           (w\<lparr>fs := s1\<rparr>) = (Inr sfn, w2)"
    and "read_file H (fs w2) sfn = Some sbytes"
    and "read_file H (fs w2) name = Some nbytes"
    and "opts_test H \<or> fst (shutil_copy H sfn name (fs w2)) = None"
    and "\<forall>u g s. fst (file_chown H name u g s) = None"
    and "\<forall>m s. fst (file_set_mode H name m s) = None"
  shows "\<exists>r w'. managed H name source user grp mode template makedirs env w = (Returns r, w')
           \<and> map_of (ret_changes r) ''diff'' =
               Some (if is_bin_bytes sbytes \<or> is_bin_bytes nbytes then ''Replace binary file''
                     else join_nl (unified_diff H (readlines sbytes) (readlines nbytes)))"
proof -
  let ?r0 = "\<lparr>ret_name = name, ret_changes = [], ret_result = True, ret_comment = []\<rparr>"
  let ?d = "if is_bin_bytes sbytes \<or> is_bin_bytes nbytes then ''Replace binary file''
            else join_nl (unified_diff H (readlines sbytes) (readlines nbytes))"
  have "\<exists>w3. managed_content H name source template env ?r0 w =
      (Inr (?r0\<lparr>ret_changes := [(''diff'', ?d)]\<rparr>), w3)"
  proof (cases "opts_test H")
    case True
    then show ?thesis
      using assms(2-8) by (simp add: managed_content_def content_diff_read [OF assms(9,10)])
  next
    case False
    with assms(11) obtain s3 where "shutil_copy H sfn name (fs w2) = (None, s3)"
      by (cases "shutil_copy H sfn name (fs w2)") auto
    then show ?thesis
      using False assms(2-8)
      by (simp add: managed_content_def content_diff_read [OF assms(9,10)] do_call_def)
  qed
  then obtain w3 where "managed_content H name source template env ?r0 w =
      (Inr (?r0\<lparr>ret_changes := [(''diff'', ?d)]\<rparr>), w3)"
    by blast
  moreover have "\<exists>r2 cu cg w4.
      perms_apply H name user grp (norm_mode mode) (?r0\<lparr>ret_changes := [(''diff'', ?d)]\<rparr>) w3 =
        (Inr (r2, cu, cg), w4)
      \<and> map_of (ret_changes r2) ''diff'' =
          map_of (ret_changes (?r0\<lparr>ret_changes := [(''diff'', ?d)]\<rparr>)) ''diff''"
    by (rule perms_apply_returns [OF assms(12,13)]) simp
  then obtain r2 cu cg w4 where
    "perms_apply H name user grp (norm_mode mode) (?r0\<lparr>ret_changes := [(''diff'', ?d)]\<rparr>) w3 =
       (Inr (r2, cu, cg), w4)"
    and "map_of (ret_changes r2) ''diff'' = Some ?d"
    by auto
  ultimately show ?thesis
    using assms(1) by (simp add: managed_def managed_comment_keeps verify_owner_keeps)
qed

theorem managed_diff_binary_or_unified_witness:
  "(\<exists>r w'. managed (toy_host False True True) ''/etc/app.conf'' ''pkg://app.conf'' None None MNone
          None False ''base'' \<lparr>fs = toy_present ''port=81'' ''600'', trace = []\<rparr> = (Returns r, w')
      \<and> map_of (ret_changes r) ''diff'' = Some (''-port=80'' @ [CHR 0x0A] @ ''+port=81''))
   \<and> (\<exists>r w'. managed (toy_host False True True) ''/etc/app.conf'' ''pkg://app.conf'' None None MNone
          None False ''base'' \<lparr>fs = toy_present [CHR ''a'', CHR 0x00] ''600'', trace = []\<rparr> = (Returns r, w')
      \<and> map_of (ret_changes r) ''diff'' = Some ''Replace binary file'')"
proof -
  have c: "\<forall>u g s. fst (file_chown (toy_host False True True) ''/etc/app.conf'' u g s) = None"
    by (simp add: toy_host_def toy_chown_def split: option.splits)
  have m: "\<forall>m s. fst (file_set_mode (toy_host False True True) ''/etc/app.conf'' m s) = None"
    by (simp add: toy_host_def toy_set_mode_def split: option.splits)
  show ?thesis
    using managed_diff_binary_or_unified [OF _ _ _ _ _ _ _ _ _ _ _ c m,
        where w = "\<lparr>fs = toy_present ''port=81'' ''600'', trace = []\<rparr>"
        and source = "''pkg://app.conf''" and env = "''base''" and ht = "''md5''"
        and hsum = "''port=80''" and h = "\<lambda>bs. bs" and bytes = "''port=81''"
        and ?sfn0.0 = "''pkg://app.conf''" and ?s1.0 = "toy_present ''port=81'' ''600''"
        and template = None and sfn = "''pkg://app.conf''"
        and ?w2.0 = "\<lparr>fs = toy_present ''port=81'' ''600'', trace = []\<rparr>"
        and sbytes = "''port=80''" and nbytes = "''port=81''"
        and user = None and grp = None and mode = MNone and makedirs = False]
      managed_diff_binary_or_unified [OF _ _ _ _ _ _ _ _ _ _ _ c m,
        where w = "\<lparr>fs = toy_present [CHR ''a'', CHR 0x00] ''600'', trace = []\<rparr>"
        and source = "''pkg://app.conf''" and env = "''base''" and ht = "''md5''"
        and hsum = "''port=80''" and h = "\<lambda>bs. bs" and bytes = "[CHR ''a'', CHR 0x00]"
        and ?sfn0.0 = "''pkg://app.conf''" and ?s1.0 = "toy_present [CHR ''a'', CHR 0x00] ''600''"
        and template = None and sfn = "''pkg://app.conf''"
        and ?w2.0 = "\<lparr>fs = toy_present [CHR ''a'', CHR 0x00] ''600'', trace = []\<rparr>"
        and sbytes = "''port=80''" and nbytes = "[CHR ''a'', CHR 0x00]"
        and user = None and grp = None and mode = MNone and makedirs = False]
    by (simp add: toy_host_def toy_kind_def toy_fresh_def toy_present_def toy_copy_def toy_put_def
          toy_dirname_def template_existing_def is_bin_bytes_def)
qed

subsection \<open>One call for owner and group\<close>

text \<open>
  C9. With dry-run off, once \<open>managed\<close> (on a present or an absent file) or \<open>directory\<close>
  has reached its permission step in the state \<open>w1\<close>, and the wanted user or the wanted
  group differs there from the actual one: the call makes exactly one \<open>file.chown\<close> call,
  and it is \<open>file.chown(name, user, group)\<close> with both arguments as they were given,
  whichever of the two differs.
\<close>

theorem chown_called_once_with_both:
  assumes "\<not> opts_test H"
    and "(truthy user \<and> user \<noteq> Some (file_get_user H (fs w1) name))
         \<or> (truthy grp \<and> grp \<noteq> Some (file_get_group H (fs w1) name))"
  shows "(os_path_isfile H (fs w) name
            \<and> managed_content H name source template env
                 \<lparr>ret_name = name, ret_changes = [], ret_result = True, ret_comment = []\<rparr> w = (Inr r1, w1)
          \<longrightarrow> filter is_chown (trace (snd (managed H name source user grp mode template makedirs env w))) =
                filter is_chown (trace w) @ [ChownCall name user grp])
       \<and> (\<not> os_path_isfile H (fs w) name
            \<and> managed_create H name source template makedirs env
                 \<lparr>ret_name = name, ret_changes = [], ret_result = True, ret_comment = []\<rparr> w = (Inr r1, w1)
          \<longrightarrow> filter is_chown (trace (snd (managed H name source user grp mode template makedirs env w))) =
                filter is_chown (trace w) @ [ChownCall name user grp])
       \<and> (directory_ensure H name makedirs
                 \<lparr>ret_name = name, ret_changes = [], ret_result = True, ret_comment = []\<rparr> w = (Inr (), w1)
          \<longrightarrow> filter is_chown (trace (snd (directory H name user grp mode makedirs w))) =
                filter is_chown (trace w) @ [ChownCall name user grp])"
proof (intro conjI impI)
  assume a: "os_path_isfile H (fs w) name
            \<and> managed_content H name source template env
                 \<lparr>ret_name = name, ret_changes = [], ret_result = True, ret_comment = []\<rparr> w = (Inr r1, w1)"
  then have "filter is_chown (trace w1) = filter is_chown (trace w)"
    by (auto elim: managed_content_filter [of is_chown, rotated 2])
  from chown_once_after [OF assms this] a
  show "filter is_chown (trace (snd (managed H name source user grp mode template makedirs env w))) =
        filter is_chown (trace w) @ [ChownCall name user grp]"
    by (simp add: managed_def)
next
  assume a: "\<not> os_path_isfile H (fs w) name
            \<and> managed_create H name source template makedirs env
                 \<lparr>ret_name = name, ret_changes = [], ret_result = True, ret_comment = []\<rparr> w = (Inr r1, w1)"
  then have "filter is_chown (trace w1) = filter is_chown (trace w)"
    by (auto elim: managed_create_filter [of is_chown, rotated 2])
  from chown_once_after [OF assms this] a
  show "filter is_chown (trace (snd (managed H name source user grp mode template makedirs env w))) =
        filter is_chown (trace w) @ [ChownCall name user grp]"
    by (simp add: managed_def)
next
  assume a: "directory_ensure H name makedirs
                 \<lparr>ret_name = name, ret_changes = [], ret_result = True, ret_comment = []\<rparr> w = (Inr (), w1)"
  then have "filter is_chown (trace w1) = filter is_chown (trace w)"
    by (auto elim: directory_ensure_filter [of is_chown, rotated])
  from chown_once_after [OF assms this] a
  show "filter is_chown (trace (snd (directory H name user grp mode makedirs w))) =
        filter is_chown (trace w) @ [ChownCall name user grp]"
    by (simp add: directory_def)
qed

theorem chown_called_once_with_both_witness:
  "filter is_chown (trace (snd (managed (toy_host False True True) ''/etc/app.conf'' ''pkg://app.conf''
       (Some ''root'') (Some ''www'') MNone None False ''base''
       \<lparr>fs = toy_present ''port=80'' ''600'', trace = []\<rparr>))) =
     [ChownCall ''/etc/app.conf'' (Some ''root'') (Some ''www'')]
   \<and> filter is_chown (trace (snd (managed (toy_host False True True) ''/etc/app.conf'' ''pkg://app.conf''
       (Some ''root'') (Some ''www'') MNone None False ''base'' \<lparr>fs = toy_fresh, trace = []\<rparr>))) =
     [ChownCall ''/etc/app.conf'' (Some ''root'') (Some ''www'')]
   \<and> filter is_chown (trace (snd (directory (toy_host False True True) ''/etc''
       (Some ''root'') (Some ''www'') MNone False \<lparr>fs = toy_fresh, trace = []\<rparr>))) =
     [ChownCall ''/etc'' (Some ''root'') (Some ''www'')]"
proof -
  have t: "\<not> opts_test (toy_host False True True)"
    by (simp add: toy_host_def)
  show ?thesis
    using chown_called_once_with_both [OF t, where name = "''/etc/app.conf''"
        and user = "Some ''root''" and grp = "Some ''www''"
        and ?w1.0 = "\<lparr>fs = toy_present ''port=80'' ''600'', trace = []\<rparr>"
        and w = "\<lparr>fs = toy_present ''port=80'' ''600'', trace = []\<rparr>"
        and source = "''pkg://app.conf''" and template = None and env = "''base''"
        and ?r1.0 = "\<lparr>ret_name = ''/etc/app.conf'', ret_changes = [], ret_result = True, ret_comment = []\<rparr>"
        and mode = MNone and makedirs = False]
      chown_called_once_with_both [OF t, where name = "''/etc/app.conf''"
        and user = "Some ''root''" and grp = "Some ''www''"
        and ?w1.0 = "\<lparr>fs = toy_present ''port=80'' ''600'',
                       trace = [CopyCall ''pkg://app.conf'' ''/etc/app.conf'']\<rparr>"
        and w = "\<lparr>fs = toy_fresh, trace = []\<rparr>"
        and source = "''pkg://app.conf''" and template = None and env = "''base''"
        and ?r1.0 = "\<lparr>ret_name = ''/etc/app.conf'', ret_changes = [(''diff'', ''New file'')],
                       ret_result = True, ret_comment = []\<rparr>"
        and mode = MNone and makedirs = False]
      chown_called_once_with_both [OF t, where name = "''/etc''"
        and user = "Some ''root''" and grp = "Some ''www''"
        and ?w1.0 = "\<lparr>fs = toy_fresh, trace = []\<rparr>" and w = "\<lparr>fs = toy_fresh, trace = []\<rparr>"
        and mode = MNone and makedirs = False]
    by (simp add: toy_host_def toy_kind_def toy_fresh_def toy_present_def toy_copy_def toy_put_def
          toy_dirname_def managed_content_def managed_create_def template_new_def directory_ensure_def
          do_call_def)
qed

subsection \<open>symlink\<close>

text \<open>
  C6. When the directory of \<open>name\<close> is not there and \<open>makedirs\<close> is set, \<open>symlink\<close> has
  the directory made (the one call it makes is \<open>os.makedirs\<close> of that directory, and the
  machine is left as that call left it) and still returns a failed result whose comment
  says that the directory is not present; \<open>os.symlink\<close> is not called.
\<close>

theorem symlink_missing_parent_makedirs:
  assumes "\<not> os_path_isdir H (fs w) (os_path_dirname H name)"
    and "os_makedirs H (os_path_dirname H name) (fs w) = (None, s')"
  shows "symlink H name target force True w =
           (Returns \<lparr>ret_name = name, ret_changes = [], ret_result = False,
              ret_comment = ''Directory '' @ os_path_dirname H name @ '' for symlink is not present''\<rparr>,
            \<lparr>fs = s', trace = trace w @ [MakedirsCall (os_path_dirname H name)]\<rparr>)"
  using assms by (simp add: symlink_def u_makedirs_def do_call_def)

theorem symlink_missing_parent_makedirs_witness:
  "\<not> os_path_isdir (toy_host False True True) [(''/srv'', KDir, ''root'', ''root'', ''755'')]
        (os_path_dirname (toy_host False True True) ''/opt/x/cur'')
   \<and> symlink (toy_host False True True) ''/opt/x/cur'' ''/srv/v1'' False True
        \<lparr>fs = [(''/srv'', KDir, ''root'', ''root'', ''755'')], trace = []\<rparr> =
       (Returns \<lparr>ret_name = ''/opt/x/cur'', ret_changes = [], ret_result = False,
          ret_comment = ''Directory /opt/x for symlink is not present''\<rparr>,
        \<lparr>fs = [(''/srv'', KDir, ''root'', ''root'', ''755''), (''/opt/x'', KDir, ''root'', ''root'', ''600'')],
         trace = [MakedirsCall ''/opt/x'']\<rparr>)"
  using symlink_missing_parent_makedirs [of "toy_host False True True"
      "\<lparr>fs = [(''/srv'', KDir, ''root'', ''root'', ''755'')], trace = []\<rparr>" "''/opt/x/cur''"
      "[(''/srv'', KDir, ''root'', ''root'', ''755''), (''/opt/x'', KDir, ''root'', ''root'', ''600'')]"
      "''/srv/v1''" False]
  by (simp add: toy_host_def toy_kind_def toy_dirname_def toy_put_def)

text \<open>
  C7. With the directory of \<open>name\<close> present: when nothing is at \<open>name\<close> and \<open>os.symlink\<close>
  succeeds, \<open>symlink\<close> makes exactly the call \<open>os.symlink(target, name)\<close> and records
  \<open>'new'\<close>; when a symlink to \<open>target\<close> is at \<open>name\<close>, it changes nothing, makes no call
  and reports the symlink as present. So a second call on the machine the creation left,
  where \<open>name\<close> now is a symlink to \<open>target\<close>, changes nothing.
\<close>

theorem symlink_creates_then_present:
  assumes "os_path_isdir H (fs w) (os_path_dirname H name)"
  shows "(\<not> os_path_islink H (fs w) name \<and> \<not> os_path_isfile H (fs w) name
            \<and> \<not> os_path_isdir H (fs w) name \<and> \<not> os_path_exists H (fs w) name
            \<and> os_symlink H target name (fs w) = (None, s')
          \<longrightarrow> symlink H name target force makedirs w =
                (Returns \<lparr>ret_name = name, ret_changes = [(''new'', name)], ret_result = True,
                   ret_comment = ''Created new symlink '' @ name\<rparr>,
                 \<lparr>fs = s', trace = trace w @ [SymlinkCall target name]\<rparr>))
       \<and> (os_path_islink H (fs w) name \<and> os_readlink H (fs w) name = Some target
          \<longrightarrow> symlink H name target force makedirs w =
                (Returns \<lparr>ret_name = name, ret_changes = [], ret_result = True,
                   ret_comment = ''The symlink '' @ name @ '' is present''\<rparr>, w))
       \<and> (os_path_isdir H s' (os_path_dirname H name) \<and> os_path_islink H s' name
            \<and> os_readlink H s' name = Some target
          \<longrightarrow> symlink H name target force makedirs
                  \<lparr>fs = s', trace = trace w @ [SymlinkCall target name]\<rparr> =
                (Returns \<lparr>ret_name = name, ret_changes = [], ret_result = True,
                   ret_comment = ''The symlink '' @ name @ '' is present''\<rparr>,
                 \<lparr>fs = s', trace = trace w @ [SymlinkCall target name]\<rparr>))"
  using assms by (simp add: symlink_def symlink_occupied_def do_call_def)

theorem symlink_creates_then_present_witness:
  "symlink (toy_host False True True) ''/srv/cur'' ''/srv/v1'' False False
       \<lparr>fs = [(''/srv'', KDir, ''root'', ''root'', ''755'')], trace = []\<rparr> =
     (Returns \<lparr>ret_name = ''/srv/cur'', ret_changes = [(''new'', ''/srv/cur'')], ret_result = True,
        ret_comment = ''Created new symlink /srv/cur''\<rparr>,
      \<lparr>fs = [(''/srv'', KDir, ''root'', ''root'', ''755''),
             (''/srv/cur'', KLink ''/srv/v1'', ''root'', ''root'', ''600'')],
       trace = [SymlinkCall ''/srv/v1'' ''/srv/cur'']\<rparr>)
   \<and> symlink (toy_host False True True) ''/srv/cur'' ''/srv/v1'' False False
       \<lparr>fs = [(''/srv'', KDir, ''root'', ''root'', ''755''),
              (''/srv/cur'', KLink ''/srv/v1'', ''root'', ''root'', ''600'')],
        trace = [SymlinkCall ''/srv/v1'' ''/srv/cur'']\<rparr> =
     (Returns \<lparr>ret_name = ''/srv/cur'', ret_changes = [], ret_result = True,
        ret_comment = ''The symlink /srv/cur is present''\<rparr>,
      \<lparr>fs = [(''/srv'', KDir, ''root'', ''root'', ''755''),
             (''/srv/cur'', KLink ''/srv/v1'', ''root'', ''root'', ''600'')],
       trace = [SymlinkCall ''/srv/v1'' ''/srv/cur'']\<rparr>)
   \<and> symlink (toy_host False True True) ''/srv/cur'' ''/srv/v1'' False False
       \<lparr>fs = [(''/srv'', KDir, ''root'', ''root'', ''755''),
              (''/srv/cur'', KLink ''/srv/v1'', ''root'', ''root'', ''600'')], trace = []\<rparr> =
     (Returns \<lparr>ret_name = ''/srv/cur'', ret_changes = [], ret_result = True,
        ret_comment = ''The symlink /srv/cur is present''\<rparr>,
      \<lparr>fs = [(''/srv'', KDir, ''root'', ''root'', ''755''),
             (''/srv/cur'', KLink ''/srv/v1'', ''root'', ''root'', ''600'')], trace = []\<rparr>)"
  using symlink_creates_then_present [of "toy_host False True True"
      "\<lparr>fs = [(''/srv'', KDir, ''root'', ''root'', ''755'')], trace = []\<rparr>" "''/srv/cur''" "''/srv/v1''"
      "[(''/srv'', KDir, ''root'', ''root'', ''755''),
        (''/srv/cur'', KLink ''/srv/v1'', ''root'', ''root'', ''600'')]" False False]
    symlink_creates_then_present [of "toy_host False True True"
      "\<lparr>fs = [(''/srv'', KDir, ''root'', ''root'', ''755''),
              (''/srv/cur'', KLink ''/srv/v1'', ''root'', ''root'', ''600'')], trace = []\<rparr>"
      "''/srv/cur''" "''/srv/v1''" "[]" False False]
  by (simp add: toy_host_def toy_kind_def toy_dirname_def toy_put_def)

text \<open>
  C10. With the directory of \<open>name\<close> present and \<open>name\<close> occupied by something that is
  no symlink, no regular file and no directory (a fifo, a socket), \<open>symlink\<close> reaches the
  end of its body: it returns \<open>None\<close>, not a result dictionary, and changes nothing.
\<close>

theorem symlink_special_returns_none:
  assumes "os_path_isdir H (fs w) (os_path_dirname H name)"
    and "\<not> os_path_islink H (fs w) name"
    and "\<not> os_path_isfile H (fs w) name"
    and "\<not> os_path_isdir H (fs w) name"
    and "os_path_exists H (fs w) name"
  shows "symlink H name target force makedirs w = (ReturnsNone, w)"
  using assms by (simp add: symlink_def symlink_occupied_def)

theorem symlink_special_returns_none_witness:
  "os_path_exists (toy_host False True True)
       [(''/run'', KDir, ''root'', ''root'', ''755''), (''/run/ctl'', KFifo, ''root'', ''root'', ''600'')]
       ''/run/ctl''
   \<and> symlink (toy_host False True True) ''/run/ctl'' ''/srv/v1'' True True
       \<lparr>fs = [(''/run'', KDir, ''root'', ''root'', ''755''), (''/run/ctl'', KFifo, ''root'', ''root'', ''600'')],
        trace = []\<rparr> =
     (ReturnsNone,
      \<lparr>fs = [(''/run'', KDir, ''root'', ''root'', ''755''), (''/run/ctl'', KFifo, ''root'', ''root'', ''600'')],
       trace = []\<rparr>)"
  using symlink_special_returns_none [of "toy_host False True True"
      "\<lparr>fs = [(''/run'', KDir, ''root'', ''root'', ''755''), (''/run/ctl'', KFifo, ''root'', ''root'', ''600'')],
        trace = []\<rparr>" "''/run/ctl''" "''/srv/v1''" True True]
  by (simp add: toy_host_def toy_kind_def toy_dirname_def)

end
